theory Spec2Isabelle
  imports Complex_Main "HOL-Library.Log_Nat"
begin

section \<open>The server of \<^verbatim>\<open>src/server.js\<close>\<close>

text \<open>
  The server keeps rooms (sessions), their players and a per-(room, player) transaction
  log, and answers socket events. This theory embeds the in-memory storage path
  (\<^verbatim>\<open>useRedis = false\<close>): \<^verbatim>\<open>rooms\<close> and \<^verbatim>\<open>transactions\<close> are the two \<^verbatim>\<open>Map\<close>s
  of the module. Every handler runs to completion on its own (no interleaving), takes
  the state and returns the new state with the messages it emitted.

  Chip amounts are JavaScript numbers, which the handlers never validate: any number
  of a request payload, negative, fractional or infinite (the JSON number \<^verbatim>\<open>1e999\<close>
  parses to \<^verbatim>\<open>Infinity\<close>), reaches the arithmetic. They are modelled by the type
  \<open>jsnum\<close> of the next section, with the language's rounding addition and subtraction.
  The payloads covered are those whose amount is a number, as the spec types it.
  Identifiers and timestamps are strings. The values the source draws from its
  environment (\<^verbatim>\<open>uuidv4()\<close>, \<^verbatim>\<open>new Date().toISOString()\<close>, \<^verbatim>\<open>generateRoomId()\<close>,
  \<^verbatim>\<open>generateNickname()\<close>) are parameters of the handler that draws them.
\<close>

section \<open>JavaScript numbers\<close>

text \<open>
  A JavaScript number is an IEEE 754 double: a finite value, which is a rational number,
  or one of \<^verbatim>\<open>Infinity\<close>, \<^verbatim>\<open>-Infinity\<close> and \<^verbatim>\<open>NaN\<close>. The two zeros \<^verbatim>\<open>0\<close> and \<^verbatim>\<open>-0\<close>
  are one value here: they are equal under \<^verbatim>\<open>===\<close>, both are falsy, and no handler
  tells them apart.
\<close>

datatype jsnum = Num rat | PosInf | NegInf | NaN

text \<open>\<open>floor_log2 x\<close> is the integer part of the binary logarithm of a positive \<open>x\<close>.\<close>

definition floor_log2 :: "rat \<Rightarrow> int" where
  "floor_log2 x = (if 1 \<le> x then bitlen \<lfloor>x\<rfloor> - 1 else - bitlen (\<lceil>1 / x\<rceil> - 1))"

definition pow2 :: "int \<Rightarrow> rat" where
  "pow2 e = (if 0 \<le> e then 2 ^ nat e else 1 / 2 ^ nat (- e))"

text \<open>Rounding to the nearest integer, a tie going to the even one.\<close>

definition round_half_even :: "rat \<Rightarrow> int" where
  "round_half_even x =
     (let f = \<lfloor>x\<rfloor>; d = x - of_int f
      in if d < 1 / 2 then f else if 1 / 2 < d then f + 1 else if even f then f else f + 1)"

text \<open>
  The double nearest to an exact result (round to nearest, ties to even): 53
  significant bits, the exponent of a normal number at least \<open>-1022\<close>, subnormal
  numbers below, and overflow to infinity from \<open>2^1024\<close> on.
\<close>

definition round_double :: "rat \<Rightarrow> jsnum" where
  "round_double x =
     (if x = 0 then Num 0
      else
        let e = max (floor_log2 \<bar>x\<bar>) (- 1022);
            ulp = pow2 (e - 52);
            r = of_int (round_half_even (x / ulp)) * ulp
        in if 2 ^ 1024 \<le> \<bar>r\<bar> then (if 0 < x then PosInf else NegInf) else Num r)"

text \<open>The operators \<^verbatim>\<open>+\<close> and \<^verbatim>\<open>-\<close> on two numbers.\<close>

fun js_add :: "jsnum \<Rightarrow> jsnum \<Rightarrow> jsnum" where
  "js_add NaN y = NaN"
| "js_add x NaN = NaN"
| "js_add PosInf NegInf = NaN"
| "js_add NegInf PosInf = NaN"
| "js_add PosInf y = PosInf"
| "js_add x PosInf = PosInf"
| "js_add NegInf y = NegInf"
| "js_add x NegInf = NegInf"
| "js_add (Num a) (Num b) = round_double (a + b)"

fun js_sub :: "jsnum \<Rightarrow> jsnum \<Rightarrow> jsnum" where
  "js_sub NaN y = NaN"
| "js_sub x NaN = NaN"
| "js_sub PosInf PosInf = NaN"
| "js_sub NegInf NegInf = NaN"
| "js_sub PosInf y = PosInf"
| "js_sub x NegInf = PosInf"
| "js_sub NegInf y = NegInf"
| "js_sub x PosInf = NegInf"
| "js_sub (Num a) (Num b) = round_double (a - b)"

text \<open>\<^verbatim>\<open>x || 0\<close> on a number: \<^verbatim>\<open>0\<close> and \<^verbatim>\<open>NaN\<close> are the falsy numbers.\<close>

definition num_or_zero :: "jsnum \<Rightarrow> jsnum" where
  "num_or_zero n = (if n = Num 0 \<or> n = NaN then Num 0 else n)"

section \<open>Rooms, players and transactions\<close>

datatype status = Waiting | Playing | Ended

record player =
  pid :: string
  socketId :: string
  nickname :: string
  fluxaAgentId :: "string option"
  buyin :: jsnum
  finalChips :: "jsnum option"
  profit :: jsnum
  joinedAt :: string

text \<open>One element of the \<^verbatim>\<open>finalChips\<close> array of a \<^verbatim>\<open>finalizeRoom\<close> request.\<close>

record final_chip =
  fc_playerId :: string
  fc_amount :: jsnum

record room =
  rid :: string
  rname :: string
  status :: status
  players :: "player list"
  createdAt :: string
  room_finalChips :: "final_chip list option"
  endedAt :: "string option"

text \<open>
  A transaction note is the client's text or one of the three template strings of the
  handlers, which embed the amount; the templates are kept symbolic.
\<close>

datatype note_text = Text string | BuyinNote jsnum | WinNote jsnum | LossNote jsnum

record tx =
  tx_id :: string
  tx_roomId :: string
  tx_playerId :: string
  tx_type :: string
  tx_amount :: jsnum
  tx_note :: note_text
  tx_timestamp :: string

record summary_row =
  s_nickname :: string
  s_buyin :: jsnum
  s_finalChips :: "jsnum option"
  s_profit :: jsnum

text \<open>The payloads of the four events sent to a room, and the two error messages.\<close>

datatype event =
    PlayerJoined player "player list"
  | BuyinEvent string player jsnum "string option"
  | RecordResultEvent string player string jsnum "string option"
  | RoomEnded room "summary_row list"

datatype error_message = RoomDoesNotExist | RoomHasEnded

text \<open>
  \<open>ToSocket sid m\<close> is \<^verbatim>\<open>socket.emit('error', {message: m})\<close> on the connection \<open>sid\<close>;
  \<open>ToRoom r e\<close> is \<^verbatim>\<open>io.to(r).emit(...)\<close>.
\<close>

datatype emission = ToSocket string error_message | ToRoom string event

record state =
  rooms :: "string \<rightharpoonup> room"
  transactions :: "string \<rightharpoonup> (string \<rightharpoonup> tx list)"
  members :: "string \<Rightarrow> string set"
  socket_ids :: "string \<rightharpoonup> string \<times> string"

definition init_state :: state where
  "init_state = \<lparr>rooms = Map.empty, transactions = Map.empty,
     members = (\<lambda>_. {}), socket_ids = Map.empty\<rparr>"

section \<open>Storage functions\<close>

definition saveRoom :: "state \<Rightarrow> string \<Rightarrow> room \<Rightarrow> state" where
  "saveRoom s roomId data = s\<lparr>rooms := (rooms s)(roomId \<mapsto> data)\<rparr>"

definition getRoom :: "state \<Rightarrow> string \<Rightarrow> room option" where
  "getRoom s roomId = rooms s roomId"

text \<open>\<^verbatim>\<open>x || y\<close> on a string that may be undefined: the empty string is falsy too.\<close>

definition truthy :: "string option \<Rightarrow> bool" where
  "truthy x = (case x of None \<Rightarrow> False | Some t \<Rightarrow> t \<noteq> [])"

text \<open>\<^verbatim>\<open>tx.note || ''\<close>: of the notes, only the empty text is falsy.\<close>

definition note_or_empty :: "note_text \<Rightarrow> note_text" where
  "note_or_empty n = (if n = Text [] then Text [] else n)"

definition getTransactions :: "state \<Rightarrow> string \<Rightarrow> string \<Rightarrow> tx list" where
  "getTransactions s roomId playerId =
     (case transactions s roomId of
        None \<Rightarrow> []
      | Some per_player \<Rightarrow> (case per_player playerId of None \<Rightarrow> [] | Some txs \<Rightarrow> txs))"

definition saveTransaction ::
  "state \<Rightarrow> string \<Rightarrow> string \<Rightarrow> string \<Rightarrow> jsnum \<Rightarrow> note_text \<Rightarrow> string \<Rightarrow> string \<Rightarrow> state \<times> tx" where
  "saveTransaction s roomId playerId type amount nt uuid now =
     (let txData = \<lparr>tx_id = uuid, tx_roomId = roomId, tx_playerId = playerId,
                     tx_type = type, tx_amount = amount, tx_note = note_or_empty nt,
                     tx_timestamp = now\<rparr>;
          per_player = (case transactions s roomId of None \<Rightarrow> Map.empty | Some m \<Rightarrow> m);
          txs = (case per_player playerId of None \<Rightarrow> [] | Some l \<Rightarrow> l)
      in (s\<lparr>transactions := (transactions s)(roomId \<mapsto> per_player(playerId \<mapsto> txs @ [txData]))\<rparr>,
          txData))"

section \<open>Roster helpers\<close>

text \<open>\<^verbatim>\<open>room.players.find(p => p.id === playerId)\<close>: the first player with that id.\<close>

definition find_player :: "player list \<Rightarrow> string \<Rightarrow> player option" where
  "find_player ps playerId = List.find (\<lambda>p. pid p = playerId) ps"

text \<open>
  The handlers assign to fields of the object that \<open>find\<close> returned, which is the
  element of the roster itself: the roster afterwards has the first player of that id
  changed and every other element as it was.
\<close>

fun modify_found :: "(player \<Rightarrow> player) \<Rightarrow> string \<Rightarrow> player list \<Rightarrow> player list" where
  "modify_found f playerId [] = []"
| "modify_found f playerId (p # ps) =
     (if pid p = playerId then f p # ps else p # modify_found f playerId ps)"

definition set_final :: "final_chip \<Rightarrow> player \<Rightarrow> player" where
  "set_final fc p =
     p\<lparr>finalChips := Some (fc_amount fc), profit := js_sub (fc_amount fc) (buyin p)\<rparr>"

text \<open>The loop \<^verbatim>\<open>for (const fc of finalChips)\<close> of \<^verbatim>\<open>finalizeRoom\<close>.\<close>

fun apply_finalChips :: "player list \<Rightarrow> final_chip list \<Rightarrow> player list" where
  "apply_finalChips ps [] = ps"
| "apply_finalChips ps (fc # fcs) =
     apply_finalChips (modify_found (set_final fc) (fc_playerId fc) ps) fcs"

definition summary_of :: "player \<Rightarrow> summary_row" where
  "summary_of p = \<lparr>s_nickname = nickname p, s_buyin = buyin p,
                    s_finalChips = finalChips p, s_profit = profit p\<rparr>"

section \<open>The HTTP route that creates a room\<close>

text \<open>
  \<^verbatim>\<open>POST /api/rooms\<close>. \<open>roomId\<close> is the result of \<^verbatim>\<open>generateRoomId()\<close> and
  \<open>default_name\<close> the template string used when no name is given.
\<close>

definition createRoom :: "state \<Rightarrow> string option \<Rightarrow> string \<Rightarrow> string \<Rightarrow> string \<Rightarrow> state \<times> room" where
  "createRoom s name roomId default_name now =
     (let room = \<lparr>rid = roomId, rname = (if truthy name then the name else default_name),
                   status = Waiting, players = [], createdAt = now,
                   room_finalChips = None, endedAt = None\<rparr>
      in (saveRoom s roomId room, room))"

section \<open>Socket handlers\<close>

definition on_joinRoom ::
  "state \<Rightarrow> string \<Rightarrow> string \<Rightarrow> string option \<Rightarrow> string option \<Rightarrow> string \<Rightarrow> string \<Rightarrow> string
    \<Rightarrow> state \<times> emission list" where
  "on_joinRoom s sid roomId nick agent uuid gen_nick now =
     (case getRoom s roomId of
        None \<Rightarrow> (s, [ToSocket sid RoomDoesNotExist])
      | Some room \<Rightarrow>
          if status room \<noteq> Waiting \<and> status room \<noteq> Playing
          then (s, [ToSocket sid RoomHasEnded])
          else
            let player = \<lparr>pid = uuid, socketId = sid,
                           nickname = (if truthy nick then the nick else gen_nick),
                           fluxaAgentId = (if truthy agent then agent else None),
                           buyin = Num 0, finalChips = None, profit = Num 0, joinedAt = now\<rparr>;
                room' = room\<lparr>players := players room @ [player]\<rparr>;
                s1 = saveRoom s roomId room';
                s2 = s1\<lparr>members := (members s1)(roomId := insert sid (members s1 roomId)),
                        socket_ids := (socket_ids s1)(sid \<mapsto> (uuid, roomId))\<rparr>
            in (s2, [ToRoom roomId (PlayerJoined player (players room'))]))"

definition on_buyin ::
  "state \<Rightarrow> string \<Rightarrow> string \<Rightarrow> jsnum \<Rightarrow> string option \<Rightarrow> string \<Rightarrow> string \<Rightarrow> state \<times> emission list" where
  "on_buyin s roomId playerId amount nt uuid now =
     (case getRoom s roomId of
        None \<Rightarrow> (s, [])
      | Some room \<Rightarrow>
          (case find_player (players room) playerId of
             None \<Rightarrow> (s, [])
           | Some player \<Rightarrow>
               let upd = (\<lambda>p. p\<lparr>buyin := js_add (num_or_zero (buyin p)) amount\<rparr>);
                   room' = room\<lparr>players := modify_found upd playerId (players room)\<rparr>;
                   s1 = saveRoom s roomId room';
                   s2 = fst (saveTransaction s1 roomId playerId ''buyin'' amount
                               (if truthy nt then Text (the nt) else BuyinNote amount) uuid now)
               in (s2, [ToRoom roomId (BuyinEvent playerId (upd player) amount nt)])))"

definition on_recordResult ::
  "state \<Rightarrow> string \<Rightarrow> string \<Rightarrow> string \<Rightarrow> jsnum \<Rightarrow> string option \<Rightarrow> string \<Rightarrow> string
    \<Rightarrow> state \<times> emission list" where
  "on_recordResult s roomId playerId type amount nt uuid now =
     (case getRoom s roomId of
        None \<Rightarrow> (s, [])
      | Some room \<Rightarrow>
          (case find_player (players room) playerId of
             None \<Rightarrow> (s, [])
           | Some player \<Rightarrow>
               let s1 = fst (saveTransaction s roomId playerId type amount
                               (if truthy nt then Text (the nt)
                                else if type = ''win'' then WinNote amount else LossNote amount)
                               uuid now)
               in (s1, [ToRoom roomId (RecordResultEvent playerId player type amount nt)])))"

definition on_finalizeRoom ::
  "state \<Rightarrow> string \<Rightarrow> final_chip list \<Rightarrow> string \<Rightarrow> state \<times> emission list" where
  "on_finalizeRoom s roomId fcs now =
     (case getRoom s roomId of
        None \<Rightarrow> (s, [])
      | Some room \<Rightarrow>
          let room' = room\<lparr>players := apply_finalChips (players room) fcs,
                           status := Ended,
                           room_finalChips := Some fcs,
                           endedAt := Some now\<rparr>
          in (saveRoom s roomId room',
              [ToRoom roomId (RoomEnded room' (map summary_of (players room')))]))"

definition on_leaveRoom :: "state \<Rightarrow> string \<Rightarrow> state \<times> emission list" where
  "on_leaveRoom s sid =
     (case socket_ids s sid of
        None \<Rightarrow> (s, [])
      | Some (playerId, roomId) \<Rightarrow>
          if roomId \<noteq> [] \<and> playerId \<noteq> []
          then (s\<lparr>members := (members s)(roomId := members s roomId - {sid})\<rparr>, [])
          else (s, []))"

section \<open>Commands and runs\<close>

text \<open>
  A command is one request with the values its handler draws from the environment;
  \<open>step\<close> dispatches it as the registrations \<^verbatim>\<open>app.post\<close> and \<^verbatim>\<open>socket.on\<close> do.
\<close>

datatype command =
    CreateRoom "string option" string string string
  | JoinRoom string string "string option" "string option" string string string
  | Buyin string string jsnum "string option" string string
  | RecordResult string string string jsnum "string option" string string
  | FinalizeRoom string "final_chip list" string
  | LeaveRoom string

fun step :: "state \<Rightarrow> command \<Rightarrow> state \<times> emission list" where
  "step s (CreateRoom name roomId default_name now) =
     (fst (createRoom s name roomId default_name now), [])"
| "step s (JoinRoom sid roomId nick agent uuid gen_nick now) =
     on_joinRoom s sid roomId nick agent uuid gen_nick now"
| "step s (Buyin roomId playerId amount nt uuid now) =
     on_buyin s roomId playerId amount nt uuid now"
| "step s (RecordResult roomId playerId type amount nt uuid now) =
     on_recordResult s roomId playerId type amount nt uuid now"
| "step s (FinalizeRoom roomId fcs now) = on_finalizeRoom s roomId fcs now"
| "step s (LeaveRoom sid) = on_leaveRoom s sid"

fun run :: "state \<Rightarrow> command list \<Rightarrow> state \<times> emission list" where
  "run s [] = (s, [])"
| "run s (c # cs) =
     (case step s c of (s1, out1) \<Rightarrow> (case run s1 cs of (s2, out2) \<Rightarrow> (s2, out1 @ out2)))"

section \<open>Specification-level notions\<close>





text \<open>An amount that the spec wants rejected: negative or not finite.\<close>

definition invalid_amount :: "jsnum \<Rightarrow> bool" where
  "invalid_amount a = (case a of Num q \<Rightarrow> q < 0 | PosInf \<Rightarrow> True | NegInf \<Rightarrow> True | NaN \<Rightarrow> True)"


text \<open>Classification of commands, for the statements about single steps.\<close>

fun creates :: "command \<Rightarrow> bool" where
  "creates (CreateRoom name roomId default_name now) = True"
| "creates c = False"

fun creates_room :: "command \<Rightarrow> string \<Rightarrow> bool" where
  "creates_room (CreateRoom name roomId default_name now) k = (roomId = k)"
| "creates_room c k = False"

fun finalizes :: "command \<Rightarrow> string \<Rightarrow> bool" where
  "finalizes (FinalizeRoom roomId fcs now) k = (roomId = k)"
| "finalizes c k = False"

fun buys_in :: "command \<Rightarrow> string \<Rightarrow> string \<Rightarrow> bool" where
  "buys_in (Buyin roomId playerId amount nt uuid now) k j = (roomId = k \<and> playerId = j)"
| "buys_in c k j = False"

fun changes_money :: "command \<Rightarrow> bool" where
  "changes_money (Buyin roomId playerId amount nt uuid now) = True"
| "changes_money (FinalizeRoom roomId fcs now) = True"
| "changes_money c = False"




text \<open>
  Every room that is not ended holds only players with profit 0 and no final-chip
  value.
\<close>

definition open_rooms_unsettled :: "state \<Rightarrow> bool" where
  "open_rooms_unsettled s =
     (\<forall>roomId r. rooms s roomId = Some r \<and> status r \<noteq> Ended \<longrightarrow>
        (\<forall>p \<in> set (players r). profit p = Num 0 \<and> finalChips p = None))"

definition never_playing :: "state \<Rightarrow> bool" where
  "never_playing s = (\<forall>roomId r. rooms s roomId = Some r \<longrightarrow> status r \<noteq> Playing)"

text \<open>A player with the three monetary fields blanked: what identifies a roster entry.\<close>

definition roster_entry :: "player \<Rightarrow> player" where
  "roster_entry p = p\<lparr>buyin := Num 0, finalChips := None, profit := Num 0\<rparr>"

section \<open>Sample runs\<close>

text \<open>
  The runs used to instantiate the theorems: a room is created, Ann and Bob join, Ann
  buys in for 100, and the room is finalized with 150 chips for Ann.
\<close>

definition demo_joined :: state where
  "demo_joined = fst (run init_state
     [CreateRoom (Some ''Friday'') ''ROOM01'' ''Poker night'' ''t0'',
      JoinRoom ''sockA'' ''ROOM01'' (Some ''Ann'') None ''pA'' ''Shark #1'' ''t1'',
      JoinRoom ''sockB'' ''ROOM01'' (Some ''Bob'') None ''pB'' ''Shark #2'' ''t2''])"

definition demo_bought :: state where
  "demo_bought = fst (run demo_joined [Buyin ''ROOM01'' ''pA'' (Num 100) None ''x1'' ''t3''])"

definition demo_ended :: state where
  "demo_ended = fst (run demo_bought
     [FinalizeRoom ''ROOM01'' [\<lparr>fc_playerId = ''pA'', fc_amount = Num 150\<rparr>] ''t4''])"

definition Ann :: player where
  "Ann = \<lparr>pid = ''pA'', socketId = ''sockA'', nickname = ''Ann'', fluxaAgentId = None,
          buyin = Num 0, finalChips = None, profit = Num 0, joinedAt = ''t1''\<rparr>"

definition Bob :: player where
  "Bob = \<lparr>pid = ''pB'', socketId = ''sockB'', nickname = ''Bob'', fluxaAgentId = None,
          buyin = Num 0, finalChips = None, profit = Num 0, joinedAt = ''t2''\<rparr>"

definition demo_room :: room where
  "demo_room = \<lparr>rid = ''ROOM01'', rname = ''Friday'', status = Waiting, players = [Ann, Bob],
                createdAt = ''t0'', room_finalChips = None, endedAt = None\<rparr>"

definition demo_room_bought :: room where
  "demo_room_bought = demo_room\<lparr>players := [Ann\<lparr>buyin := Num 100\<rparr>, Bob]\<rparr>"

definition demo_room_ended :: room where
  "demo_room_ended = demo_room\<lparr>
     players := [Ann\<lparr>buyin := Num 100, finalChips := Some (Num 150), profit := Num 50\<rparr>, Bob],
     status := Ended,
     room_finalChips := Some [\<lparr>fc_playerId = ''pA'', fc_amount = Num 150\<rparr>],
     endedAt := Some ''t4''\<rparr>"

text \<open>The ended room after a second finalize, with 70 chips for Ann at time \<open>t9\<close>.\<close>

definition demo_room_refinalized :: room where
  "demo_room_refinalized = demo_room_ended\<lparr>
     players := [Ann\<lparr>buyin := Num 100, finalChips := Some (Num 70), profit := Num (- 30)\<rparr>, Bob],
     room_finalChips := Some [\<lparr>fc_playerId = ''pA'', fc_amount = Num 70\<rparr>],
     endedAt := Some ''t9''\<rparr>"



definition demo_large :: state where
  "demo_large = fst (run demo_joined
     [Buyin ''ROOM01'' ''pA'' (Num 9007199254740994) None ''x1'' ''t3''])"

section \<open>Facts about the numbers\<close>

lemma round_half_even_int: "round_half_even (of_int m) = m"
  by (simp add: round_half_even_def)

text \<open>Integers of magnitude at most \<open>2^53\<close> are doubles: rounding leaves them alone.\<close>

lemma round_double_int:
  assumes "\<bar>n\<bar> \<le> 2 ^ 53"
  shows "round_double (of_int n) = Num (of_int n)"
proof (cases "n = 0")
  case True
  then show ?thesis by (simp add: round_double_def)
next
  case False
  define a where "a = \<bar>n\<bar>"
  have a: "0 < a" "a \<le> 2 ^ 53" using False assms by (simp_all add: a_def)
  have abs_a: "\<bar>of_int n :: rat\<bar> = of_int a" by (simp add: a_def)
  have "1 \<le> a" using a(1) by simp
  then have "(of_int 1 :: rat) \<le> of_int a" by (simp only: of_int_le_iff)
  then have "(1 :: rat) \<le> of_int a" by simp
  then have fl: "floor_log2 \<bar>of_int n\<bar> = bitlen a - 1"
    unfolding abs_a floor_log2_def by simp
  from bitlen_bounds[OF a(1)] have lo: "2 ^ nat (bitlen a - 1) \<le> a" by simp
  have b1: "1 \<le> bitlen a" using a(1) bitlen_eq_zero_iff[of a] bitlen_nonneg[of a] by linarith
  have "a < 2 ^ nat 54" using a(2) by simp
  then have b54: "bitlen a \<le> 54" by (simp add: bitlen_le_iff_power)
  define e where "e = bitlen a - 1"
  have e: "0 \<le> e" "e \<le> 53" using b1 b54 by (simp_all add: e_def)
  have mx: "max e (- 1022) = e" using e by simp
  have exact: "of_int (round_half_even (of_int n / pow2 (e - 52))) * pow2 (e - 52) = (of_int n :: rat)"
  proof (cases "e \<le> 52")
    case True
    define k where "k = nat (52 - e)"
    have p: "pow2 (e - 52) = 1 / 2 ^ k"
      using True by (cases "e = 52") (simp_all add: pow2_def k_def)
    have "of_int n / pow2 (e - 52) = (of_int (n * 2 ^ k) :: rat)"
      by (simp add: p)
    then have "round_half_even (of_int n / pow2 (e - 52)) = n * 2 ^ k"
      by (simp only: round_half_even_int)
    then show ?thesis by (simp add: p)
  next
    case False
    with e have e53: "e = 53" by simp
    then have "2 ^ 53 \<le> a" using lo by (simp add: e_def)
    with a(2) have "a = 2 ^ 53" by simp
    then have n: "n = 2 ^ 53 \<or> n = - (2 ^ 53)" unfolding a_def by linarith
    have p: "pow2 (e - 52) = 2" by (simp add: e53 pow2_def)
    from n show ?thesis
    proof
      assume "n = 2 ^ 53"
      then have "of_int n / pow2 (e - 52) = (of_int (2 ^ 52) :: rat)" by (simp add: p)
      then have "round_half_even (of_int n / pow2 (e - 52)) = 2 ^ 52"
        by (simp only: round_half_even_int)
      then show ?thesis using \<open>n = 2 ^ 53\<close> by (simp add: p)
    next
      assume "n = - (2 ^ 53)"
      then have "of_int n / pow2 (e - 52) = (of_int (- (2 ^ 52)) :: rat)" by (simp add: p)
      then have "round_half_even (of_int n / pow2 (e - 52)) = - (2 ^ 52)"
        by (simp only: round_half_even_int)
      then show ?thesis using \<open>n = - (2 ^ 53)\<close> by (simp add: p)
    qed
  qed
  have small: "\<not> 2 ^ 1024 \<le> \<bar>of_int n :: rat\<bar>"
  proof -
    have "\<bar>of_int n :: rat\<bar> = of_int a" by (simp add: a_def)
    also have "\<dots> \<le> of_int (2 ^ 53)" using a(2) by (simp only: of_int_le_iff)
    also have "\<dots> < (2 ^ 1024 :: rat)" by simp
    finally show ?thesis by simp
  qed
  show ?thesis
    using False small exact
    by (simp add: round_double_def fl mx Let_def flip: e_def)
qed

lemma js_add_int:
  "\<bar>a + b\<bar> \<le> 2 ^ 53 \<Longrightarrow> js_add (Num (of_int a)) (Num (of_int b)) = Num (of_int (a + b))"
  using round_double_int[of "a + b"] by simp

lemma js_sub_int:
  "\<bar>a - b\<bar> \<le> 2 ^ 53 \<Longrightarrow> js_sub (Num (of_int a)) (Num (of_int b)) = Num (of_int (a - b))"
  using round_double_int[of "a - b"] by simp

lemma num_or_zero_Num: "num_or_zero (Num q) = Num q"
  by (simp add: num_or_zero_def)








text \<open>The arithmetic of the sample runs.\<close>

lemma demo_round:
  "round_double 100 = Num 100"
  "round_double 150 = Num 150"
  "round_double 50 = Num 50"
  "round_double 30 = Num 30"
  "round_double (- 30) = Num (- 30)"
  "round_double (- 50) = Num (- 50)"
  "round_double 9007199254740992 = Num 9007199254740992"
  using round_double_int[of 100] round_double_int[of 150] round_double_int[of 50]
    round_double_int[of 30] round_double_int[of "- 30"] round_double_int[of "- 50"]
    round_double_int[of 9007199254740992]
  by simp_all

lemma demo_round_tie: "round_double 9007199254740993 = Num 9007199254740992"
  by code_simp

lemma demo_round_even: "round_double 9007199254740994 = Num 9007199254740994"
  by code_simp

lemma demo_round_neg_tie: "round_double (- 9007199254740993) = Num (- 9007199254740992)"
  by code_simp

lemmas demo_arith = num_or_zero_def demo_round demo_round_tie demo_round_even demo_round_neg_tie

section \<open>Facts about the roster helpers and the store\<close>

lemma length_modify_found: "length (modify_found f k ps) = length ps"
  by (induction ps) auto

lemma find_modify_found_same:
  "find_player ps k = Some p \<Longrightarrow> pid (f p) = pid p \<Longrightarrow>
   find_player (modify_found f k ps) k = Some (f p)"
  by (induction ps) (auto simp: find_player_def split: if_splits)

lemma find_modify_found_other:
  "k' \<noteq> k \<Longrightarrow> (\<And>p. pid (f p) = pid p) \<Longrightarrow>
   find_player (modify_found f k ps) k' = find_player ps k'"
  by (induction ps) (auto simp: find_player_def split: if_splits)



lemma nth_modify_found_other:
  "i < length ps \<Longrightarrow> pid (ps ! i) \<noteq> k \<Longrightarrow> modify_found f k ps ! i = ps ! i"
  by (induction ps arbitrary: i) (auto simp: nth_Cons split: nat.splits)

lemma map_modify_found:
  "(\<And>p. g (f p) = g p) \<Longrightarrow> map g (modify_found f k ps) = map g ps"
  by (induction ps) auto

lemma set_modify_found: "x \<in> set (modify_found f k ps) \<Longrightarrow> x \<in> set ps \<or> x \<in> f ` set ps"
  by (induction ps) (auto split: if_splits)

lemma rooms_saveRoom: "rooms (saveRoom s r d) = (rooms s)(r \<mapsto> d)"
  by (simp add: saveRoom_def)

lemma getTransactions_saveRoom:
  "getTransactions (saveRoom s r d) r' p' = getTransactions s r' p'"
  by (simp add: getTransactions_def saveRoom_def)

lemma rooms_saveTransaction: "rooms (fst (saveTransaction s r p ty a n u t)) = rooms s"
  by (simp add: saveTransaction_def Let_def)

lemma getTransactions_saveTransaction:
  "getTransactions (fst (saveTransaction s r p ty a n u t)) r' p' =
     (if r' = r \<and> p' = p
      then getTransactions s r p @ [\<lparr>tx_id = u, tx_roomId = r, tx_playerId = p, tx_type = ty,
             tx_amount = a, tx_note = n, tx_timestamp = t\<rparr>]
      else getTransactions s r' p')"
  by (auto simp: getTransactions_def saveTransaction_def note_or_empty_def Let_def
      split: option.splits)

section \<open>The sample runs, evaluated\<close>

lemma demo_joined_room: "rooms demo_joined ''ROOM01'' = Some demo_room"
  by (simp add: demo_joined_def demo_room_def Ann_def Bob_def init_state_def createRoom_def
      on_joinRoom_def saveRoom_def getRoom_def truthy_def Let_def)

lemma demo_joined_history: "getTransactions demo_joined ''ROOM01'' k = []"
  by (simp add: demo_joined_def init_state_def createRoom_def getTransactions_def
      on_joinRoom_def saveRoom_def getRoom_def truthy_def Let_def)

lemma demo_find_Ann: "find_player (players demo_room) ''pA'' = Some Ann"
  by (simp add: demo_room_def find_player_def Ann_def)

lemma demo_bought_room: "rooms demo_bought ''ROOM01'' = Some demo_room_bought"
  by (simp add: demo_bought_def demo_room_bought_def on_buyin_def getRoom_def
      demo_joined_room find_player_def truthy_def rooms_saveRoom rooms_saveTransaction
      Let_def demo_room_def Ann_def Bob_def demo_arith)

lemma demo_bought_find_Ann:
  "find_player (players demo_room_bought) ''pA'' = Some (Ann\<lparr>buyin := Num 100\<rparr>)"
  by (simp add: demo_room_bought_def demo_room_def find_player_def Ann_def)

lemma demo_ended_room: "rooms demo_ended ''ROOM01'' = Some demo_room_ended"
  by (simp add: demo_ended_def demo_room_ended_def on_finalizeRoom_def getRoom_def
      demo_bought_room demo_room_bought_def rooms_saveRoom Let_def demo_room_def
      Ann_def Bob_def set_final_def demo_arith)

section \<open>The stored rooms and histories after each handler\<close>

lemma not_open_iff: "(st \<noteq> Waiting \<and> st \<noteq> Playing) = (st = Ended)"
  by (cases st) auto

lemma createRoom_rooms:
  "rooms (fst (createRoom s name roomId default_name now)) =
     (rooms s)(roomId \<mapsto> snd (createRoom s name roomId default_name now))"
  by (simp add: createRoom_def Let_def rooms_saveRoom)

lemma createRoom_fresh:
  "status (snd (createRoom s name roomId default_name now)) = Waiting
   \<and> players (snd (createRoom s name roomId default_name now)) = []"
  by (simp add: createRoom_def Let_def)


lemma on_joinRoom_rooms:
  "rooms (fst (on_joinRoom s sid roomId nick agent uuid gen_nick now)) =
     (case rooms s roomId of
        None \<Rightarrow> rooms s
      | Some r \<Rightarrow>
          if status r = Ended then rooms s
          else (rooms s)(roomId \<mapsto> r\<lparr>players := players r @
                 [\<lparr>pid = uuid, socketId = sid,
                   nickname = (if truthy nick then the nick else gen_nick),
                   fluxaAgentId = (if truthy agent then agent else None),
                   buyin = Num 0, finalChips = None, profit = Num 0, joinedAt = now\<rparr>]\<rparr>))"
  by (simp add: on_joinRoom_def getRoom_def not_open_iff Let_def rooms_saveRoom
      split: option.splits)


lemma on_buyin_rooms:
  "rooms (fst (on_buyin s roomId playerId amount nt uuid now)) =
     (case rooms s roomId of
        None \<Rightarrow> rooms s
      | Some r \<Rightarrow>
          (case find_player (players r) playerId of
             None \<Rightarrow> rooms s
           | Some p \<Rightarrow> (rooms s)(roomId \<mapsto> r\<lparr>players :=
                 modify_found (\<lambda>p. p\<lparr>buyin := js_add (num_or_zero (buyin p)) amount\<rparr>)
                   playerId (players r)\<rparr>)))"
  by (simp add: on_buyin_def getRoom_def Let_def rooms_saveRoom rooms_saveTransaction
      split: option.splits)


lemma on_recordResult_rooms:
  "rooms (fst (on_recordResult s roomId playerId type amount nt uuid now)) = rooms s"
  by (simp add: on_recordResult_def getRoom_def rooms_saveTransaction Let_def
      split: option.splits)


lemma on_finalizeRoom_rooms:
  "rooms (fst (on_finalizeRoom s roomId fcs now)) =
     (case rooms s roomId of
        None \<Rightarrow> rooms s
      | Some r \<Rightarrow> (rooms s)(roomId \<mapsto> r\<lparr>players := apply_finalChips (players r) fcs,
            status := Ended, room_finalChips := Some fcs, endedAt := Some now\<rparr>))"
  by (simp add: on_finalizeRoom_def getRoom_def Let_def rooms_saveRoom split: option.splits)


lemma on_leaveRoom_rooms: "rooms (fst (on_leaveRoom s sid)) = rooms s"
  by (simp add: on_leaveRoom_def split: option.splits prod.splits)


lemma run_Cons_fst: "fst (run s (c # cs)) = fst (run (fst (step s c)) cs)"
  by (cases "step s c"; cases "run (fst (step s c)) cs") simp

lemma run_Nil_fst: "fst (run s []) = s"
  by simp

lemma run_append: "fst (run s (xs @ ys)) = fst (run (fst (run s xs)) ys)"
proof (induction xs arbitrary: s)
  case Nil
  show ?case by simp
next
  case (Cons c xs)
  have "fst (run s ((c # xs) @ ys)) = fst (run (fst (step s c)) (xs @ ys))"
    by (simp only: append_Cons run_Cons_fst)
  also have "\<dots> = fst (run (fst (run (fst (step s c)) xs)) ys)"
    by (rule Cons.IH)
  also have "\<dots> = fst (run (fst (run s (c # xs))) ys)"
    by (simp only: run_Cons_fst)
  finally show ?case .
qed

section \<open>Finalize: the loop\<close>

lemma set_final_pid: "pid (set_final fc p) = pid p"
  by (simp add: set_final_def)

lemma set_final_buyin: "buyin (set_final fc p) = buyin p"
  by (simp add: set_final_def)

lemma length_apply_finalChips: "length (apply_finalChips ps fcs) = length ps"
  by (induction fcs arbitrary: ps) (auto simp: length_modify_found)

lemma map_apply_finalChips:
  "(\<And>fc p. g (set_final fc p) = g p) \<Longrightarrow> map g (apply_finalChips ps fcs) = map g ps"
  by (induction fcs arbitrary: ps) (auto simp: map_modify_found)

lemma find_apply_finalChips_unlisted:
  "k \<notin> fc_playerId ` set fcs \<Longrightarrow> find_player (apply_finalChips ps fcs) k = find_player ps k"
  by (induction fcs arbitrary: ps) (auto simp: find_modify_found_other set_final_pid)


lemma nth_apply_finalChips_unlisted:
  "i < length ps \<Longrightarrow> pid (ps ! i) \<notin> fc_playerId ` set fcs \<Longrightarrow>
   apply_finalChips ps fcs ! i = ps ! i"
proof (induction fcs arbitrary: ps)
  case Nil
  then show ?case by simp
next
  case (Cons fc fcs)
  let ?ps' = "modify_found (set_final fc) (fc_playerId fc) ps"
  from Cons.prems have same: "?ps' ! i = ps ! i"
    by (simp add: nth_modify_found_other)
  from Cons.prems have "i < length ?ps'" "pid (?ps' ! i) \<notin> fc_playerId ` set fcs"
    by (simp_all add: length_modify_found same)
  from Cons.IH[OF this] same show ?case by simp
qed

lemma find_apply_finalChips_listed:
  assumes "distinct (map fc_playerId fcs)" "fc \<in> set fcs"
    and "find_player ps (fc_playerId fc) = Some p"
  shows "find_player (apply_finalChips ps fcs) (fc_playerId fc) = Some (set_final fc p)"
  using assms
proof (induction fcs arbitrary: ps)
  case Nil
  then show ?case by simp
next
  case (Cons c fcs)
  show ?case
  proof (cases "fc = c")
    case True
    from Cons.prems(1) have "fc_playerId c \<notin> fc_playerId ` set fcs" by simp
    with True Cons.prems(3) show ?thesis
      by (simp add: find_apply_finalChips_unlisted find_modify_found_same set_final_pid)
  next
    case False
    with Cons.prems have mem: "fc \<in> set fcs" by simp
    from Cons.prems(1) have "fc_playerId c \<notin> fc_playerId ` set fcs" by simp
    moreover have "fc_playerId fc \<in> fc_playerId ` set fcs" using mem by (rule imageI)
    ultimately have ne: "fc_playerId fc \<noteq> fc_playerId c" by metis
    from Cons.prems(1) have d: "distinct (map fc_playerId fcs)" by simp
    have "find_player (modify_found (set_final c) (fc_playerId c) ps) (fc_playerId fc) = Some p"
      using ne Cons.prems(3) by (simp add: find_modify_found_other set_final_pid)
    from Cons.IH[OF d mem this] show ?thesis by simp
  qed
qed

lemma on_finalizeRoom_found:
  assumes "rooms s roomId = Some r"
  shows "\<exists>r'. rooms (fst (on_finalizeRoom s roomId fcs now)) roomId = Some r'
      \<and> players r' = apply_finalChips (players r) fcs
      \<and> status r' = Ended \<and> room_finalChips r' = Some fcs \<and> endedAt r' = Some now
      \<and> snd (on_finalizeRoom s roomId fcs now)
          = [ToRoom roomId (RoomEnded r' (map summary_of (players r')))]"
  using assms by (simp add: on_finalizeRoom_def getRoom_def Let_def rooms_saveRoom)

lemma finalized_roster:
  assumes "distinct (map fc_playerId fcs)"
  shows "(\<forall>fc p. fc \<in> set fcs \<and> find_player ps (fc_playerId fc) = Some p \<longrightarrow>
            (\<exists>p'. find_player (apply_finalChips ps fcs) (fc_playerId fc) = Some p'
                 \<and> finalChips p' = Some (fc_amount fc)
                 \<and> profit p' = js_sub (fc_amount fc) (buyin p)
                 \<and> buyin p' = buyin p))
       \<and> (\<forall>i<length ps. pid (ps ! i) \<notin> fc_playerId ` set fcs \<longrightarrow>
            apply_finalChips ps fcs ! i = ps ! i)"
proof (intro conjI allI impI)
  fix fc p assume "fc \<in> set fcs \<and> find_player ps (fc_playerId fc) = Some p"
  then have "find_player (apply_finalChips ps fcs) (fc_playerId fc) = Some (set_final fc p)"
    using assms by (simp add: find_apply_finalChips_listed)
  then show "\<exists>p'. find_player (apply_finalChips ps fcs) (fc_playerId fc) = Some p'
                 \<and> finalChips p' = Some (fc_amount fc)
                 \<and> profit p' = js_sub (fc_amount fc) (buyin p)
                 \<and> buyin p' = buyin p"
    by (simp add: set_final_def)
next
  fix i assume "i < length ps" "pid (ps ! i) \<notin> fc_playerId ` set fcs"
  then show "apply_finalChips ps fcs ! i = ps ! i"
    by (rule nth_apply_finalChips_unlisted)
qed

section \<open>The ledger and the buy-in field\<close>




section \<open>Buy-in\<close>

lemma on_buyin_found:
  assumes "rooms s roomId = Some r" "find_player (players r) playerId = Some p"
  shows "\<exists>r' p' t. rooms (fst (on_buyin s roomId playerId a n u now)) roomId = Some r'
      \<and> find_player (players r') playerId = Some p'
      \<and> p' = p\<lparr>buyin := js_add (num_or_zero (buyin p)) a\<rparr>
      \<and> getTransactions (fst (on_buyin s roomId playerId a n u now)) roomId playerId
          = getTransactions s roomId playerId @ [t]
      \<and> tx_amount t = a \<and> tx_type t = ''buyin''
      \<and> snd (on_buyin s roomId playerId a n u now) = [ToRoom roomId (BuyinEvent playerId p' a n)]"
  using assms
  by (simp add: on_buyin_def getRoom_def Let_def rooms_saveTransaction
      getTransactions_saveTransaction getTransactions_saveRoom rooms_saveRoom
      find_modify_found_same)





section \<open>Record-result\<close>

lemma on_recordResult_found:
  assumes "rooms s roomId = Some r" "find_player (players r) playerId = Some p"
  shows "(\<exists>t. getTransactions (fst (on_recordResult s roomId playerId type amount nt uuid now))
               roomId playerId = getTransactions s roomId playerId @ [t]
            \<and> tx_type t = type \<and> tx_amount t = amount)
      \<and> snd (on_recordResult s roomId playerId type amount nt uuid now)
          = [ToRoom roomId (RecordResultEvent playerId p type amount nt)]"
  using assms
  by (simp add: on_recordResult_def getRoom_def Let_def getTransactions_saveTransaction)

lemma on_recordResult_other_history:
  assumes "(r2, p2) \<noteq> (roomId, playerId)"
  shows "getTransactions (fst (on_recordResult s roomId playerId type amount nt uuid now)) r2 p2
       = getTransactions s r2 p2"
  using assms
  by (auto simp: on_recordResult_def getRoom_def Let_def getTransactions_saveTransaction
      split: option.splits)

text \<open>
  C9. A record-result command never changes the stored rooms: every player record,
  with its cumulative buy-in, is as before. When the room and the player exist, the
  command appends exactly one transaction, of the given type and amount, to the history
  of that (room, player) pair, leaves every other history as it was, and sends one
  \<^verbatim>\<open>recordResult\<close> event to the room, carrying the unchanged player.
\<close>

theorem recordResult_frame:
  "rooms (fst (on_recordResult s roomId playerId type amount nt uuid now)) = rooms s
   \<and> (\<forall>r p. rooms s roomId = Some r \<and> find_player (players r) playerId = Some p \<longrightarrow>
        (\<exists>t. getTransactions (fst (on_recordResult s roomId playerId type amount nt uuid now))
               roomId playerId = getTransactions s roomId playerId @ [t]
            \<and> tx_type t = type \<and> tx_amount t = amount)
      \<and> (\<forall>r2 p2. (r2, p2) \<noteq> (roomId, playerId) \<longrightarrow>
            getTransactions (fst (on_recordResult s roomId playerId type amount nt uuid now)) r2 p2
              = getTransactions s r2 p2)
      \<and> snd (on_recordResult s roomId playerId type amount nt uuid now)
          = [ToRoom roomId (RecordResultEvent playerId p type amount nt)])"
proof (intro conjI allI impI)
  show "rooms (fst (on_recordResult s roomId playerId type amount nt uuid now)) = rooms s"
    by (rule on_recordResult_rooms)
next
  fix r p assume "rooms s roomId = Some r \<and> find_player (players r) playerId = Some p"
  then have f: "rooms s roomId = Some r" "find_player (players r) playerId = Some p"
    by simp_all
  from on_recordResult_found[OF f]
  show "\<exists>t. getTransactions (fst (on_recordResult s roomId playerId type amount nt uuid now))
               roomId playerId = getTransactions s roomId playerId @ [t]
            \<and> tx_type t = type \<and> tx_amount t = amount"
    by blast
  from on_recordResult_found[OF f]
  show "snd (on_recordResult s roomId playerId type amount nt uuid now)
          = [ToRoom roomId (RecordResultEvent playerId p type amount nt)]"
    by blast
next
  fix r p r2 p2 assume "(r2, p2) \<noteq> (roomId, playerId)"
  then show "getTransactions (fst (on_recordResult s roomId playerId type amount nt uuid now)) r2 p2
              = getTransactions s r2 p2"
    by (rule on_recordResult_other_history)
qed

theorem recordResult_frame_witness:
  "rooms demo_joined ''ROOM01'' = Some demo_room
   \<and> find_player (players demo_room) ''pA'' = Some Ann
   \<and> rooms (fst (on_recordResult demo_joined ''ROOM01'' ''pA'' ''win'' (Num 30) None ''x1'' ''t3''))
        ''ROOM01'' = Some demo_room
   \<and> (\<exists>t. getTransactions
             (fst (on_recordResult demo_joined ''ROOM01'' ''pA'' ''win'' (Num 30) None ''x1'' ''t3''))
             ''ROOM01'' ''pA'' = [t]
          \<and> tx_type t = ''win'' \<and> tx_amount t = Num 30)
   \<and> getTransactions
        (fst (on_recordResult demo_joined ''ROOM01'' ''pA'' ''win'' (Num 30) None ''x1'' ''t3''))
        ''ROOM01'' ''pB'' = []
   \<and> snd (on_recordResult demo_joined ''ROOM01'' ''pA'' ''win'' (Num 30) None ''x1'' ''t3'')
        = [ToRoom ''ROOM01'' (RecordResultEvent ''pA'' Ann ''win'' (Num 30) None)]"
proof -
  have ne: "(''ROOM01'', ''pB'') \<noteq> (''ROOM01'', ''pA'')" by simp
  from recordResult_frame[of demo_joined "''ROOM01''" "''pA''" "''win''" "Num 30" None "''x1''" "''t3''"]
    demo_joined_room demo_find_Ann ne
  show ?thesis
    by (simp add: demo_joined_history)
qed

section \<open>Rejected and ignored commands\<close>

text \<open>
  C7. A join command for a room id that is not stored answers the originating
  connection with the error "room does not exist" (the spec's NotFound); a join command
  for a room whose status is \<^verbatim>\<open>ended\<close> answers it with the error "room has ended" (the
  spec's InvalidState). In both cases the state is returned as it was, so no player is
  added, and the only message is the error to the originating socket: nothing is sent
  to the room.
\<close>

theorem join_rejected:
  "(rooms s roomId = None \<longrightarrow>
      on_joinRoom s sid roomId nick agent uuid gen_nick now = (s, [ToSocket sid RoomDoesNotExist]))
   \<and> (\<forall>r. rooms s roomId = Some r \<and> status r = Ended \<longrightarrow>
      on_joinRoom s sid roomId nick agent uuid gen_nick now = (s, [ToSocket sid RoomHasEnded]))"
  by (simp add: on_joinRoom_def getRoom_def)

theorem join_rejected_witness:
  "rooms init_state ''NOROOM'' = None
   \<and> on_joinRoom init_state ''sockC'' ''NOROOM'' (Some ''Cy'') None ''pC'' ''Shark #3'' ''t5''
       = (init_state, [ToSocket ''sockC'' RoomDoesNotExist])
   \<and> rooms demo_ended ''ROOM01'' = Some demo_room_ended
   \<and> status demo_room_ended = Ended
   \<and> on_joinRoom demo_ended ''sockC'' ''ROOM01'' (Some ''Cy'') None ''pC'' ''Shark #3'' ''t5''
       = (demo_ended, [ToSocket ''sockC'' RoomHasEnded])"
proof -
  have a: "rooms init_state ''NOROOM'' = None" by (simp add: init_state_def)
  have b: "status demo_room_ended = Ended" by (simp add: demo_room_ended_def)
  from join_rejected[of init_state "''NOROOM''" "''sockC''" "Some ''Cy''" None "''pC''"
      "''Shark #3''" "''t5''"] a
  have 1: "on_joinRoom init_state ''sockC'' ''NOROOM'' (Some ''Cy'') None ''pC'' ''Shark #3'' ''t5''
       = (init_state, [ToSocket ''sockC'' RoomDoesNotExist])"
    by blast
  from join_rejected[of demo_ended "''ROOM01''" "''sockC''" "Some ''Cy''" None "''pC''"
      "''Shark #3''" "''t5''"] demo_ended_room b
  have 2: "on_joinRoom demo_ended ''sockC'' ''ROOM01'' (Some ''Cy'') None ''pC'' ''Shark #3'' ''t5''
       = (demo_ended, [ToSocket ''sockC'' RoomHasEnded])"
    by blast
  show ?thesis
    by (intro conjI) (fact a b 1 2 demo_ended_room)+
qed

text \<open>
  C6, as the code has it. A buy-in or record-result command that names a room id that is
  not stored, or a player id that \<open>find\<close> does not find in the room's roster, is dropped
  without a word: the state is returned as it was and no message at all is emitted,
  neither an error to the caller nor an event to the room.
\<close>

theorem missing_target_ignored:
  assumes "rooms s roomId = None
         \<or> (\<exists>r. rooms s roomId = Some r \<and> find_player (players r) playerId = None)"
  shows "on_buyin s roomId playerId amount nt uuid now = (s, [])
       \<and> on_recordResult s roomId playerId type amount nt uuid now = (s, [])"
  using assms by (auto simp: on_buyin_def on_recordResult_def getRoom_def)

theorem missing_target_ignored_witness:
  "rooms init_state ''NOROOM'' = None
   \<and> on_buyin init_state ''NOROOM'' ''pA'' (Num 100) None ''x1'' ''t3'' = (init_state, [])
   \<and> on_recordResult init_state ''NOROOM'' ''pA'' ''win'' (Num 100) None ''x1'' ''t3'' = (init_state, [])
   \<and> rooms demo_joined ''ROOM01'' = Some demo_room
   \<and> find_player (players demo_room) ''pZ'' = None
   \<and> on_buyin demo_joined ''ROOM01'' ''pZ'' (Num 100) None ''x1'' ''t3'' = (demo_joined, [])
   \<and> on_recordResult demo_joined ''ROOM01'' ''pZ'' ''win'' (Num 100) None ''x1'' ''t3'' = (demo_joined, [])"
proof -
  have a: "rooms init_state ''NOROOM'' = None" by (simp add: init_state_def)
  have b: "find_player (players demo_room) ''pZ'' = None"
    by (simp add: demo_room_def find_player_def Ann_def Bob_def)
  have c: "\<exists>r. rooms demo_joined ''ROOM01'' = Some r \<and> find_player (players r) ''pZ'' = None"
    using demo_joined_room b by blast
  show ?thesis
    using missing_target_ignored[OF disjI1, OF a, of "''pA''" "Num 100" None "''x1''" "''t3''" "''win''"]
      missing_target_ignored[OF disjI2, OF c, of "Num 100" None "''x1''" "''t3''" "''win''"]
      a b demo_joined_room
    by simp
qed

text \<open>
  The claim C6 asks for a NotFound error reported to the caller. On a missing room, and
  on a missing player, both handlers emit nothing.
\<close>

theorem missing_target_unreported_counterexample:
  "rooms init_state ''NOROOM'' = None
   \<and> snd (on_buyin init_state ''NOROOM'' ''pA'' (Num 100) None ''x1'' ''t3'') = []
   \<and> snd (on_recordResult init_state ''NOROOM'' ''pA'' ''win'' (Num 100) None ''x1'' ''t3'') = []
   \<and> find_player (players demo_room) ''pZ'' = None
   \<and> snd (on_buyin demo_joined ''ROOM01'' ''pZ'' (Num 100) None ''x1'' ''t3'') = []
   \<and> snd (on_recordResult demo_joined ''ROOM01'' ''pZ'' ''win'' (Num 100) None ''x1'' ''t3'') = []"
  by (simp add: init_state_def on_buyin_def on_recordResult_def getRoom_def demo_joined_room
      demo_room_def find_player_def Ann_def Bob_def)

section \<open>Finalize\<close>

lemma demo_large_room:
  "rooms demo_large ''ROOM01''
     = Some (demo_room\<lparr>players := [Ann\<lparr>buyin := Num 9007199254740994\<rparr>, Bob]\<rparr>)"
  by (simp add: demo_large_def run_Cons_fst run_Nil_fst on_buyin_rooms demo_joined_room
      demo_room_def find_player_def Ann_def Bob_def demo_arith del: run.simps)

text \<open>
  C5, as the code has it. Let a finalize command reach a stored room with a final-chips
  map (a list of entries with pairwise different player ids). The roster keeps its
  length. For each entry whose player id \<open>find\<close> finds in the roster, the player found
  afterwards under that id has the entry's amount as final-chip count, the same
  cumulative buy-in, and as profit the result of the language's rounding \<^verbatim>\<open>-\<close> on the
  amount and the cumulative buy-in; when both are integers and their difference has
  magnitude at most \<open>2^53\<close>, the profit is exactly that difference. Every roster
  position whose player id is not in the map holds the same player record as before;
  in particular its final-chip value is as before, so an absent one stays absent.
\<close>

theorem finalize_sets_chips_and_profit:
  assumes "rooms s roomId = Some r" and "distinct (map fc_playerId fcs)"
  shows "\<exists>r'. rooms (fst (on_finalizeRoom s roomId fcs now)) roomId = Some r'
      \<and> length (players r') = length (players r)
      \<and> (\<forall>fc p. fc \<in> set fcs \<and> find_player (players r) (fc_playerId fc) = Some p \<longrightarrow>
            (\<exists>p'. find_player (players r') (fc_playerId fc) = Some p'
                 \<and> finalChips p' = Some (fc_amount fc)
                 \<and> profit p' = js_sub (fc_amount fc) (buyin p)
                 \<and> buyin p' = buyin p
                 \<and> (\<forall>a b. fc_amount fc = Num (of_int a) \<and> buyin p = Num (of_int b)
                       \<and> \<bar>a - b\<bar> \<le> 2 ^ 53 \<longrightarrow>
                       profit p' = Num (of_int (a - b)))))
      \<and> (\<forall>i<length (players r). pid (players r ! i) \<notin> fc_playerId ` set fcs \<longrightarrow>
            players r' ! i = players r ! i
          \<and> finalChips (players r' ! i) = finalChips (players r ! i))"
proof -
  from on_finalizeRoom_found[OF assms(1), of fcs now] obtain r' where r':
    "rooms (fst (on_finalizeRoom s roomId fcs now)) roomId = Some r'"
    "players r' = apply_finalChips (players r) fcs"
    by blast
  note roster = finalized_roster[OF assms(2), of "players r"]
  have listed: "\<exists>p'. find_player (players r') (fc_playerId fc) = Some p'
                 \<and> finalChips p' = Some (fc_amount fc)
                 \<and> profit p' = js_sub (fc_amount fc) (buyin p)
                 \<and> buyin p' = buyin p
                 \<and> (\<forall>a b. fc_amount fc = Num (of_int a) \<and> buyin p = Num (of_int b)
                       \<and> \<bar>a - b\<bar> \<le> 2 ^ 53 \<longrightarrow>
                       profit p' = Num (of_int (a - b)))"
    if h: "fc \<in> set fcs \<and> find_player (players r) (fc_playerId fc) = Some p" for fc p
  proof -
    from roster[THEN conjunct1, rule_format, OF h] obtain p' where p':
      "find_player (players r') (fc_playerId fc) = Some p'"
      "finalChips p' = Some (fc_amount fc)"
      "profit p' = js_sub (fc_amount fc) (buyin p)"
      "buyin p' = buyin p"
      unfolding r'(2) by blast
    have "profit p' = Num (of_int (a - b))"
      if "fc_amount fc = Num (of_int a) \<and> buyin p = Num (of_int b) \<and> \<bar>a - b\<bar> \<le> 2 ^ 53"
      for a b
    proof -
      from that have "js_sub (fc_amount fc) (buyin p) = Num (of_int (a - b))"
        using js_sub_int[of a b] by (simp del: js_sub.simps)
      with p'(3) show ?thesis by simp
    qed
    with p' show ?thesis by blast
  qed
  have omitted: "players r' ! i = players r ! i
          \<and> finalChips (players r' ! i) = finalChips (players r ! i)"
    if "i < length (players r)" "pid (players r ! i) \<notin> fc_playerId ` set fcs" for i
    using roster[THEN conjunct2, rule_format, OF that] by (simp add: r'(2))
  show ?thesis
    apply (rule exI[of _ r'])
    apply (intro conjI allI impI)
    using r'(1) listed omitted by (simp_all add: r'(2) length_apply_finalChips)
qed

theorem finalize_sets_chips_and_profit_witness:
  "rooms demo_bought ''ROOM01'' = Some demo_room_bought
   \<and> distinct (map fc_playerId [\<lparr>fc_playerId = ''pA'', fc_amount = Num 150\<rparr>])
   \<and> find_player (players demo_room_bought) ''pA'' = Some (Ann\<lparr>buyin := Num 100\<rparr>)
   \<and> pid (players demo_room_bought ! 1) = ''pB''
   \<and> finalChips (players demo_room_bought ! 1) = None
   \<and> (\<exists>r'. rooms (fst (on_finalizeRoom demo_bought ''ROOM01''
                  [\<lparr>fc_playerId = ''pA'', fc_amount = Num 150\<rparr>] ''t4'')) ''ROOM01'' = Some r'
        \<and> (\<exists>p'. find_player (players r') ''pA'' = Some p'
              \<and> finalChips p' = Some (Num 150) \<and> profit p' = Num 50 \<and> buyin p' = Num 100)
        \<and> finalChips (players r' ! 1) = None)"
proof -
  let ?fc = "\<lparr>fc_playerId = ''pA'', fc_amount = Num 150\<rparr>"
  have d: "distinct (map fc_playerId [?fc])" by simp
  have b: "pid (players demo_room_bought ! 1) = ''pB''"
    "finalChips (players demo_room_bought ! 1) = None"
    "(1::nat) < length (players demo_room_bought)"
    by (simp_all add: demo_room_bought_def demo_room_def Bob_def)
  from finalize_sets_chips_and_profit[OF demo_bought_room d, of "''t4''"] obtain r' where r':
    "rooms (fst (on_finalizeRoom demo_bought ''ROOM01'' [?fc] ''t4'')) ''ROOM01'' = Some r'"
    "\<forall>fc p. fc \<in> set [?fc] \<and> find_player (players demo_room_bought) (fc_playerId fc) = Some p \<longrightarrow>
       (\<exists>p'. find_player (players r') (fc_playerId fc) = Some p'
            \<and> finalChips p' = Some (fc_amount fc)
            \<and> profit p' = js_sub (fc_amount fc) (buyin p)
            \<and> buyin p' = buyin p
            \<and> (\<forall>a b. fc_amount fc = Num (of_int a) \<and> buyin p = Num (of_int b)
                  \<and> \<bar>a - b\<bar> \<le> 2 ^ 53 \<longrightarrow>
                  profit p' = Num (of_int (a - b))))"
    "\<forall>i<length (players demo_room_bought).
       pid (players demo_room_bought ! i) \<notin> fc_playerId ` set [?fc] \<longrightarrow>
         players r' ! i = players demo_room_bought ! i
       \<and> finalChips (players r' ! i) = finalChips (players demo_room_bought ! i)"
    by (elim exE conjE) (rule that; assumption)
  from r'(2)[rule_format, of ?fc "Ann\<lparr>buyin := Num 100\<rparr>"] demo_bought_find_Ann
  obtain p' where p': "find_player (players r') ''pA'' = Some p'"
    "finalChips p' = Some (Num 150)" "buyin p' = Num 100"
    "\<forall>a b. Num 150 = Num (of_int a) \<and> Num 100 = Num (of_int b) \<and> \<bar>a - b\<bar> \<le> 2 ^ 53
       \<longrightarrow> profit p' = Num (of_int (a - b))"
    by auto
  from p'(4)[rule_format, of 150 100] have pr: "profit p' = Num 50" by simp
  have listed: "\<exists>p'. find_player (players r') ''pA'' = Some p'
              \<and> finalChips p' = Some (Num 150) \<and> profit p' = Num 50 \<and> buyin p' = Num 100"
    using p'(1,2,3) pr by blast
  from r'(3)[rule_format, of 1] b
  have omitted: "finalChips (players r' ! 1) = None"
    by simp
  show ?thesis
    by (intro conjI exI[of _ r'])
       (fact demo_bought_room d demo_bought_find_Ann b(1,2) r'(1) listed omitted)+
qed

text \<open>
  The claim C5 asks for the profit to be exactly final chips minus cumulative buy-in for
  every finalize command. After the two joins of the sample run Ann buys in for
  \<open>2^53 + 2\<close>, which is stored as it is; a finalize with 1 chip for her then stores
  the profit \<open>-2^53\<close>, while the exact difference is \<open>-(2^53 + 1)\<close>.
\<close>

theorem rounded_profit_counterexample:
  "rooms demo_large ''ROOM01''
     = Some (demo_room\<lparr>players := [Ann\<lparr>buyin := Num 9007199254740994\<rparr>, Bob]\<rparr>)
   \<and> rooms (fst (on_finalizeRoom demo_large ''ROOM01''
               [\<lparr>fc_playerId = ''pA'', fc_amount = Num 1\<rparr>] ''t4'')) ''ROOM01''
       = Some (demo_room\<lparr>
            players := [Ann\<lparr>buyin := Num 9007199254740994, finalChips := Some (Num 1),
                           profit := Num (- 9007199254740992)\<rparr>, Bob],
            status := Ended,
            room_finalChips := Some [\<lparr>fc_playerId = ''pA'', fc_amount = Num 1\<rparr>],
            endedAt := Some ''t4''\<rparr>)
   \<and> (1 :: rat) - 9007199254740994 = - 9007199254740993"
  by (simp add: on_finalizeRoom_rooms demo_large_room demo_room_def Ann_def Bob_def
      set_final_def demo_arith)

text \<open>
  C3, as the code has it. A finalize command on a room whose status is already
  \<^verbatim>\<open>ended\<close> is not rejected. No error is emitted; the settlement is applied again:
  for each entry of the map (pairwise different player ids) whose player is found, the
  final-chip count is overwritten with the entry's amount and the profit with the
  result of the language's \<^verbatim>\<open>-\<close> on that amount and the cumulative buy-in, and the
  positions not listed keep their records; the final-chips snapshot and the end
  timestamp are overwritten, the status stays \<^verbatim>\<open>ended\<close>, and one \<^verbatim>\<open>roomEnded\<close> event
  with the new room and its summary is sent to the room.
\<close>

theorem finalize_again_reapplied:
  assumes "rooms s roomId = Some r" and "status r = Ended"
    and "distinct (map fc_playerId fcs)"
  shows "\<exists>r'. rooms (fst (on_finalizeRoom s roomId fcs now)) roomId = Some r'
      \<and> status r' = Ended \<and> room_finalChips r' = Some fcs \<and> endedAt r' = Some now
      \<and> snd (on_finalizeRoom s roomId fcs now)
          = [ToRoom roomId (RoomEnded r' (map summary_of (players r')))]
      \<and> (\<forall>fc p. fc \<in> set fcs \<and> find_player (players r) (fc_playerId fc) = Some p \<longrightarrow>
            (\<exists>p'. find_player (players r') (fc_playerId fc) = Some p'
                 \<and> finalChips p' = Some (fc_amount fc)
                 \<and> profit p' = js_sub (fc_amount fc) (buyin p)
                 \<and> buyin p' = buyin p))
      \<and> (\<forall>i<length (players r). pid (players r ! i) \<notin> fc_playerId ` set fcs \<longrightarrow>
            players r' ! i = players r ! i)"
proof -
  from on_finalizeRoom_found[OF assms(1), of fcs now] obtain r' where r':
    "rooms (fst (on_finalizeRoom s roomId fcs now)) roomId = Some r'"
    "players r' = apply_finalChips (players r) fcs"
    "status r' = Ended" "room_finalChips r' = Some fcs" "endedAt r' = Some now"
    "snd (on_finalizeRoom s roomId fcs now)
       = [ToRoom roomId (RoomEnded r' (map summary_of (players r')))]"
    by blast
  show ?thesis
    apply (rule exI[of _ r'])
    using r'(1,3,4,5,6) finalized_roster[OF assms(3), of "players r"]
    unfolding r'(2) by simp
qed

theorem finalize_again_reapplied_witness:
  "rooms demo_ended ''ROOM01'' = Some demo_room_ended
   \<and> status demo_room_ended = Ended
   \<and> distinct (map fc_playerId [\<lparr>fc_playerId = ''pA'', fc_amount = Num 70\<rparr>])
   \<and> find_player (players demo_room_ended) ''pA''
       = Some (Ann\<lparr>buyin := Num 100, finalChips := Some (Num 150), profit := Num 50\<rparr>)
   \<and> (\<exists>r'. rooms (fst (on_finalizeRoom demo_ended ''ROOM01''
                  [\<lparr>fc_playerId = ''pA'', fc_amount = Num 70\<rparr>] ''t9'')) ''ROOM01'' = Some r'
        \<and> status r' = Ended \<and> endedAt r' = Some ''t9''
        \<and> snd (on_finalizeRoom demo_ended ''ROOM01''
                  [\<lparr>fc_playerId = ''pA'', fc_amount = Num 70\<rparr>] ''t9'')
            = [ToRoom ''ROOM01'' (RoomEnded r' (map summary_of (players r')))]
        \<and> (\<exists>p'. find_player (players r') ''pA'' = Some p'
              \<and> finalChips p' = Some (Num 70) \<and> profit p' = Num (- 30)))"
proof -
  let ?fc = "\<lparr>fc_playerId = ''pA'', fc_amount = Num 70\<rparr>"
  have d: "distinct (map fc_playerId [?fc])" by simp
  have e: "status demo_room_ended = Ended" by (simp add: demo_room_ended_def)
  have f: "find_player (players demo_room_ended) ''pA''
       = Some (Ann\<lparr>buyin := Num 100, finalChips := Some (Num 150), profit := Num 50\<rparr>)"
    by (simp add: demo_room_ended_def find_player_def Ann_def)
  from finalize_again_reapplied[OF demo_ended_room e d, of "''t9''"] obtain r' where r':
    "rooms (fst (on_finalizeRoom demo_ended ''ROOM01'' [?fc] ''t9'')) ''ROOM01'' = Some r'"
    "status r' = Ended" "endedAt r' = Some ''t9''"
    "snd (on_finalizeRoom demo_ended ''ROOM01'' [?fc] ''t9'')
       = [ToRoom ''ROOM01'' (RoomEnded r' (map summary_of (players r')))]"
    "\<forall>fc p. fc \<in> set [?fc] \<and> find_player (players demo_room_ended) (fc_playerId fc) = Some p \<longrightarrow>
       (\<exists>p'. find_player (players r') (fc_playerId fc) = Some p'
            \<and> finalChips p' = Some (fc_amount fc)
            \<and> profit p' = js_sub (fc_amount fc) (buyin p)
            \<and> buyin p' = buyin p)"
    by (elim exE conjE) (rule that; assumption)
  from r'(5)[rule_format, of ?fc "Ann\<lparr>buyin := Num 100, finalChips := Some (Num 150), profit := Num 50\<rparr>"] f
  have listed: "\<exists>p'. find_player (players r') ''pA'' = Some p'
              \<and> finalChips p' = Some (Num 70) \<and> profit p' = Num (- 30)"
    by (auto simp: demo_arith)
  show ?thesis
    by (intro conjI exI[of _ r']) (fact demo_ended_room d e f r'(1,2,3,4) listed)+
qed

text \<open>
  The claim C3 asks for the second finalize to be rejected and to leave the session
  document unchanged. In the sample run the room is ended with 150 chips for Ann at
  \<open>t4\<close>; a second finalize with 70 chips at \<open>t9\<close> is stored, changes the document,
  and its only message is the \<^verbatim>\<open>roomEnded\<close> event to the room.
\<close>

theorem finalize_again_counterexample:
  "rooms demo_ended ''ROOM01'' = Some demo_room_ended
   \<and> status demo_room_ended = Ended
   \<and> rooms (fst (on_finalizeRoom demo_ended ''ROOM01''
               [\<lparr>fc_playerId = ''pA'', fc_amount = Num 70\<rparr>] ''t9'')) ''ROOM01''
       = Some demo_room_refinalized
   \<and> demo_room_refinalized \<noteq> demo_room_ended
   \<and> map finalChips (players demo_room_ended) = [Some (Num 150), None]
   \<and> map finalChips (players demo_room_refinalized) = [Some (Num 70), None]
   \<and> endedAt demo_room_ended = Some ''t4''
   \<and> endedAt demo_room_refinalized = Some ''t9''
   \<and> snd (on_finalizeRoom demo_ended ''ROOM01''
               [\<lparr>fc_playerId = ''pA'', fc_amount = Num 70\<rparr>] ''t9'')
       = [ToRoom ''ROOM01'' (RoomEnded demo_room_refinalized
            [\<lparr>s_nickname = ''Ann'', s_buyin = Num 100, s_finalChips = Some (Num 70),
              s_profit = Num (- 30)\<rparr>,
             \<lparr>s_nickname = ''Bob'', s_buyin = Num 0, s_finalChips = None, s_profit = Num 0\<rparr>])]"
  by (simp add: on_finalizeRoom_def getRoom_def demo_ended_room rooms_saveRoom Let_def
      demo_room_refinalized_def demo_room_ended_def demo_room_def Ann_def Bob_def
      set_final_def summary_of_def demo_arith)

section \<open>Amounts are not validated\<close>

lemma on_buyin_effect:
  assumes "rooms s roomId = Some r" and "find_player (players r) playerId = Some p"
  shows "\<exists>r' p' t.
            rooms (fst (on_buyin s roomId playerId amount nt uuid now)) roomId = Some r'
          \<and> find_player (players r') playerId = Some p'
          \<and> p' = p\<lparr>buyin := js_add (num_or_zero (buyin p)) amount\<rparr>
          \<and> getTransactions (fst (on_buyin s roomId playerId amount nt uuid now)) roomId playerId
              = getTransactions s roomId playerId @ [t]
          \<and> tx_amount t = amount \<and> tx_type t = ''buyin''
          \<and> snd (on_buyin s roomId playerId amount nt uuid now)
              = [ToRoom roomId (BuyinEvent playerId p' amount nt)]
          \<and> (\<forall>b a. buyin p = Num (of_int b) \<and> amount = Num (of_int a)
                \<and> \<bar>b + a\<bar> \<le> 2 ^ 53 \<longrightarrow> buyin p' = Num (of_int (b + a)))
          \<and> ((\<exists>q. buyin p = Num q) \<and> amount = PosInf \<longrightarrow> buyin p' = PosInf)
          \<and> ((\<exists>q. buyin p = Num q) \<and> amount = NegInf \<longrightarrow> buyin p' = NegInf)
          \<and> (amount = NaN \<longrightarrow> buyin p' = NaN)"
proof -
  from on_buyin_found[OF assms, of amount nt uuid now] obtain r' p' t where f:
    "rooms (fst (on_buyin s roomId playerId amount nt uuid now)) roomId = Some r'"
    "find_player (players r') playerId = Some p'"
    "p' = p\<lparr>buyin := js_add (num_or_zero (buyin p)) amount\<rparr>"
    "getTransactions (fst (on_buyin s roomId playerId amount nt uuid now)) roomId playerId
       = getTransactions s roomId playerId @ [t]"
    "tx_amount t = amount" "tx_type t = ''buyin''"
    "snd (on_buyin s roomId playerId amount nt uuid now)
       = [ToRoom roomId (BuyinEvent playerId p' amount nt)]"
    by blast
  have b: "buyin p' = js_add (num_or_zero (buyin p)) amount" by (simp add: f(3))
  have ints: "buyin p' = Num (of_int (b0 + a))"
    if "buyin p = Num (of_int b0) \<and> amount = Num (of_int a) \<and> \<bar>b0 + a\<bar> \<le> 2 ^ 53" for b0 a
    using that js_add_int[of b0 a] unfolding b
    by (simp add: num_or_zero_Num del: js_add.simps)
  have pinf: "buyin p' = PosInf" if "(\<exists>q. buyin p = Num q) \<and> amount = PosInf"
    using that unfolding b by (auto simp: num_or_zero_Num)
  have ninf: "buyin p' = NegInf" if "(\<exists>q. buyin p = Num q) \<and> amount = NegInf"
    using that unfolding b by (auto simp: num_or_zero_Num)
  have nan: "buyin p' = NaN" if "amount = NaN"
    using that unfolding b by (cases "num_or_zero (buyin p)") simp_all
  show ?thesis
    apply (rule exI[of _ r'], rule exI[of _ p'], rule exI[of _ t])
    apply (intro conjI allI impI)
    using f ints pinf ninf nan by blast+
qed

text \<open>
  C4, as the code has it. Neither handler validates the amount. A buy-in command with a
  negative or non-finite amount for a stored room and a player found in it is applied
  like any other: the amount is added to the player's cumulative buy-in with the
  language's \<^verbatim>\<open>+\<close>, one transaction of type \<^verbatim>\<open>buyin\<close> with that amount is appended to
  the pair's history, and one \<^verbatim>\<open>buyin\<close> event is sent to the room. A negative integer
  amount decreases an integer buy-in by its magnitude (sums up to \<open>2^53\<close>), an infinite
  amount makes a finite buy-in infinite, and \<^verbatim>\<open>NaN\<close> makes it \<^verbatim>\<open>NaN\<close>. A record-result
  command with such an amount appends one transaction with that amount, leaves the
  rooms unchanged and sends one \<^verbatim>\<open>recordResult\<close> event. No error is emitted in either
  case.
\<close>

theorem invalid_amount_applied:
  assumes "invalid_amount amount" and "rooms s roomId = Some r"
    and "find_player (players r) playerId = Some p"
  shows "(\<exists>r' p' t.
            rooms (fst (on_buyin s roomId playerId amount nt uuid now)) roomId = Some r'
          \<and> find_player (players r') playerId = Some p'
          \<and> p' = p\<lparr>buyin := js_add (num_or_zero (buyin p)) amount\<rparr>
          \<and> getTransactions (fst (on_buyin s roomId playerId amount nt uuid now)) roomId playerId
              = getTransactions s roomId playerId @ [t]
          \<and> tx_amount t = amount \<and> tx_type t = ''buyin''
          \<and> snd (on_buyin s roomId playerId amount nt uuid now)
              = [ToRoom roomId (BuyinEvent playerId p' amount nt)]
          \<and> (\<forall>b a. buyin p = Num (of_int b) \<and> amount = Num (of_int a)
                \<and> \<bar>b + a\<bar> \<le> 2 ^ 53 \<longrightarrow> buyin p' = Num (of_int (b + a)))
          \<and> ((\<exists>q. buyin p = Num q) \<and> amount = PosInf \<longrightarrow> buyin p' = PosInf)
          \<and> ((\<exists>q. buyin p = Num q) \<and> amount = NegInf \<longrightarrow> buyin p' = NegInf)
          \<and> (amount = NaN \<longrightarrow> buyin p' = NaN))
       \<and> rooms (fst (on_recordResult s roomId playerId type amount nt uuid now)) = rooms s
       \<and> (\<exists>t. getTransactions (fst (on_recordResult s roomId playerId type amount nt uuid now))
                 roomId playerId = getTransactions s roomId playerId @ [t]
              \<and> tx_type t = type \<and> tx_amount t = amount)
       \<and> snd (on_recordResult s roomId playerId type amount nt uuid now)
           = [ToRoom roomId (RecordResultEvent playerId p type amount nt)]"
  using on_buyin_effect[OF assms(2,3), of amount nt uuid now]
    on_recordResult_found[OF assms(2,3), of type amount nt uuid now]
    on_recordResult_rooms[of s roomId playerId type amount nt uuid now]
  by (intro conjI) (assumption | erule conjunct1 | erule conjunct2)+

theorem invalid_amount_applied_witness:
  "invalid_amount (Num (- 50)) \<and> invalid_amount PosInf
   \<and> rooms demo_joined ''ROOM01'' = Some demo_room
   \<and> find_player (players demo_room) ''pA'' = Some Ann
   \<and> buyin Ann = Num 0
   \<and> (\<exists>r' p'. rooms (fst (on_buyin demo_joined ''ROOM01'' ''pA'' (Num (- 50)) None ''x1'' ''t3''))
                  ''ROOM01'' = Some r'
          \<and> find_player (players r') ''pA'' = Some p'
          \<and> buyin p' = Num (- 50)
          \<and> snd (on_buyin demo_joined ''ROOM01'' ''pA'' (Num (- 50)) None ''x1'' ''t3'')
              = [ToRoom ''ROOM01'' (BuyinEvent ''pA'' p' (Num (- 50)) None)])
   \<and> (\<exists>r' p'. rooms (fst (on_buyin demo_joined ''ROOM01'' ''pA'' PosInf None ''x1'' ''t3''))
                  ''ROOM01'' = Some r'
          \<and> find_player (players r') ''pA'' = Some p'
          \<and> buyin p' = PosInf
          \<and> snd (on_buyin demo_joined ''ROOM01'' ''pA'' PosInf None ''x1'' ''t3'')
              = [ToRoom ''ROOM01'' (BuyinEvent ''pA'' p' PosInf None)])
   \<and> snd (on_recordResult demo_joined ''ROOM01'' ''pA'' ''loss'' PosInf None ''x1'' ''t3'')
       = [ToRoom ''ROOM01'' (RecordResultEvent ''pA'' Ann ''loss'' PosInf None)]"
proof -
  have n: "invalid_amount (Num (- 50))" by (simp add: invalid_amount_def)
  have i: "invalid_amount PosInf" by (simp add: invalid_amount_def)
  have z: "buyin Ann = Num 0" by (simp add: Ann_def)
  from invalid_amount_applied[OF n demo_joined_room demo_find_Ann,
      of None "''x1''" "''t3''" "''loss''"]
  obtain r1 p1 where a:
    "rooms (fst (on_buyin demo_joined ''ROOM01'' ''pA'' (Num (- 50)) None ''x1'' ''t3''))
       ''ROOM01'' = Some r1"
    "find_player (players r1) ''pA'' = Some p1"
    "snd (on_buyin demo_joined ''ROOM01'' ''pA'' (Num (- 50)) None ''x1'' ''t3'')
       = [ToRoom ''ROOM01'' (BuyinEvent ''pA'' p1 (Num (- 50)) None)]"
    "\<forall>b a. buyin Ann = Num (of_int b) \<and> Num (- 50) = Num (of_int a)
        \<and> \<bar>b + a\<bar> \<le> 2 ^ 53 \<longrightarrow> buyin p1 = Num (of_int (b + a))"
    by (elim exE conjE) (rule that; assumption)
  from a(4)[rule_format, of 0 "- 50"] z have b: "buyin p1 = Num (- 50)" by simp
  from invalid_amount_applied[OF i demo_joined_room demo_find_Ann,
      of None "''x1''" "''t3''" "''loss''"]
  obtain r2 p2 where c:
    "rooms (fst (on_buyin demo_joined ''ROOM01'' ''pA'' PosInf None ''x1'' ''t3''))
       ''ROOM01'' = Some r2"
    "find_player (players r2) ''pA'' = Some p2"
    "snd (on_buyin demo_joined ''ROOM01'' ''pA'' PosInf None ''x1'' ''t3'')
       = [ToRoom ''ROOM01'' (BuyinEvent ''pA'' p2 PosInf None)]"
    "(\<exists>q. buyin Ann = Num q) \<and> PosInf = PosInf \<longrightarrow> buyin p2 = PosInf"
    and d: "snd (on_recordResult demo_joined ''ROOM01'' ''pA'' ''loss'' PosInf None ''x1'' ''t3'')
       = [ToRoom ''ROOM01'' (RecordResultEvent ''pA'' Ann ''loss'' PosInf None)]"
    by (elim exE conjE) (rule that; assumption)
  from c(4) z have e: "buyin p2 = PosInf" by simp
  have first: "\<exists>r' p'. rooms (fst (on_buyin demo_joined ''ROOM01'' ''pA'' (Num (- 50)) None
                  ''x1'' ''t3'')) ''ROOM01'' = Some r'
          \<and> find_player (players r') ''pA'' = Some p'
          \<and> buyin p' = Num (- 50)
          \<and> snd (on_buyin demo_joined ''ROOM01'' ''pA'' (Num (- 50)) None ''x1'' ''t3'')
              = [ToRoom ''ROOM01'' (BuyinEvent ''pA'' p' (Num (- 50)) None)]"
    by (intro exI[of _ r1] exI[of _ p1] conjI) (fact a(1,2,3) b)+
  have second: "\<exists>r' p'. rooms (fst (on_buyin demo_joined ''ROOM01'' ''pA'' PosInf None
                  ''x1'' ''t3'')) ''ROOM01'' = Some r'
          \<and> find_player (players r') ''pA'' = Some p'
          \<and> buyin p' = PosInf
          \<and> snd (on_buyin demo_joined ''ROOM01'' ''pA'' PosInf None ''x1'' ''t3'')
              = [ToRoom ''ROOM01'' (BuyinEvent ''pA'' p' PosInf None)]"
    by (intro exI[of _ r2] exI[of _ p2] conjI) (fact c(1,2,3) e)+
  show ?thesis
    by (intro conjI) (fact n i z demo_joined_room demo_find_Ann first second d)+
qed

text \<open>
  The claim C4 asks for a negative or non-finite amount to be rejected with no state
  change. In the sample run, a buy-in of \<open>-50\<close> for Ann is stored: her cumulative
  buy-in becomes \<open>-50\<close>, the transaction is in the ledger and the event is sent. A
  buy-in of \<^verbatim>\<open>Infinity\<close> is stored as well and makes her cumulative buy-in infinite, and
  a record-result of \<^verbatim>\<open>-Infinity\<close> is stored in the ledger and sent.
\<close>

theorem invalid_amount_counterexample:
  "rooms demo_joined ''ROOM01'' = Some demo_room
   \<and> map buyin (players demo_room) = [Num 0, Num 0]
   \<and> rooms (fst (on_buyin demo_joined ''ROOM01'' ''pA'' (Num (- 50)) None ''x1'' ''t3''))
        ''ROOM01'' = Some (demo_room\<lparr>players := [Ann\<lparr>buyin := Num (- 50)\<rparr>, Bob]\<rparr>)
   \<and> map tx_amount (getTransactions
         (fst (on_buyin demo_joined ''ROOM01'' ''pA'' (Num (- 50)) None ''x1'' ''t3''))
         ''ROOM01'' ''pA'') = [Num (- 50)]
   \<and> snd (on_buyin demo_joined ''ROOM01'' ''pA'' (Num (- 50)) None ''x1'' ''t3'')
       = [ToRoom ''ROOM01'' (BuyinEvent ''pA'' (Ann\<lparr>buyin := Num (- 50)\<rparr>) (Num (- 50)) None)]
   \<and> rooms (fst (on_buyin demo_joined ''ROOM01'' ''pA'' PosInf None ''x1'' ''t3''))
        ''ROOM01'' = Some (demo_room\<lparr>players := [Ann\<lparr>buyin := PosInf\<rparr>, Bob]\<rparr>)
   \<and> map tx_amount (getTransactions
         (fst (on_buyin demo_joined ''ROOM01'' ''pA'' PosInf None ''x1'' ''t3''))
         ''ROOM01'' ''pA'') = [PosInf]
   \<and> snd (on_buyin demo_joined ''ROOM01'' ''pA'' PosInf None ''x1'' ''t3'')
       = [ToRoom ''ROOM01'' (BuyinEvent ''pA'' (Ann\<lparr>buyin := PosInf\<rparr>) PosInf None)]
   \<and> map tx_amount (getTransactions
         (fst (on_recordResult demo_joined ''ROOM01'' ''pA'' ''loss'' NegInf None ''x1'' ''t3''))
         ''ROOM01'' ''pA'') = [NegInf]
   \<and> snd (on_recordResult demo_joined ''ROOM01'' ''pA'' ''loss'' NegInf None ''x1'' ''t3'')
       = [ToRoom ''ROOM01'' (RecordResultEvent ''pA'' Ann ''loss'' NegInf None)]"
  by (simp add: on_buyin_def on_recordResult_def getRoom_def demo_joined_room
      demo_joined_history rooms_saveRoom rooms_saveTransaction getTransactions_saveRoom
      getTransactions_saveTransaction Let_def demo_room_def find_player_def Ann_def Bob_def
      truthy_def demo_arith)

section \<open>Invariants of the reachable states\<close>

lemma open_rooms_unsettled_init: "open_rooms_unsettled init_state"
  by (simp add: open_rooms_unsettled_def init_state_def)

lemma open_rooms_unsettled_step:
  assumes "open_rooms_unsettled s"
  shows "open_rooms_unsettled (fst (step s c))"
proof (cases c)
  case (CreateRoom name roomId default_name now)
  with assms show ?thesis
    by (auto simp: open_rooms_unsettled_def createRoom_rooms createRoom_fresh)
next
  case (JoinRoom sid roomId nick agent uuid gen_nick now)
  with assms show ?thesis
    by (auto simp: open_rooms_unsettled_def on_joinRoom_rooms
        split: option.splits if_splits)
next
  case (Buyin roomId playerId amount nt uuid now)
  with assms show ?thesis
    by (auto simp: open_rooms_unsettled_def on_buyin_rooms
        split: option.splits if_splits dest!: set_modify_found)
next
  case (RecordResult roomId playerId type amount nt uuid now)
  with assms show ?thesis
    by (simp add: open_rooms_unsettled_def on_recordResult_rooms)
next
  case (FinalizeRoom roomId fcs now)
  with assms show ?thesis
    by (auto simp: open_rooms_unsettled_def on_finalizeRoom_rooms
        split: option.splits if_splits)
next
  case (LeaveRoom sid)
  with assms show ?thesis
    by (simp add: open_rooms_unsettled_def on_leaveRoom_rooms)
qed

lemma open_rooms_unsettled_run:
  "open_rooms_unsettled s \<Longrightarrow> open_rooms_unsettled (fst (run s cs))"
proof (induction cs arbitrary: s)
  case Nil
  then show ?case by simp
next
  case (Cons c cs)
  from Cons.IH[OF open_rooms_unsettled_step[OF Cons.prems, of c]]
  show ?case by (simp only: run_Cons_fst)
qed

lemma never_playing_step:
  assumes "never_playing s"
  shows "never_playing (fst (step s c))"
proof (cases c)
  case (CreateRoom name roomId default_name now)
  with assms show ?thesis
    by (auto simp: never_playing_def createRoom_rooms createRoom_fresh)
next
  case (JoinRoom sid roomId nick agent uuid gen_nick now)
  with assms show ?thesis
    by (auto simp: never_playing_def on_joinRoom_rooms split: option.splits if_splits)
next
  case (Buyin roomId playerId amount nt uuid now)
  with assms show ?thesis
    by (auto simp: never_playing_def on_buyin_rooms split: option.splits if_splits)
next
  case (RecordResult roomId playerId type amount nt uuid now)
  with assms show ?thesis
    by (simp add: never_playing_def on_recordResult_rooms)
next
  case (FinalizeRoom roomId fcs now)
  with assms show ?thesis
    by (auto simp: never_playing_def on_finalizeRoom_rooms split: option.splits if_splits)
next
  case (LeaveRoom sid)
  with assms show ?thesis
    by (simp add: never_playing_def on_leaveRoom_rooms)
qed

lemma never_playing_run: "never_playing s \<Longrightarrow> never_playing (fst (run s cs))"
proof (induction cs arbitrary: s)
  case Nil
  then show ?case by simp
next
  case (Cons c cs)
  from Cons.IH[OF never_playing_step[OF Cons.prems, of c]]
  show ?case by (simp only: run_Cons_fst)
qed

lemma never_playing_init: "never_playing init_state"
  by (simp add: never_playing_def init_state_def)

lemma demo_bought_reached:
  "demo_bought = fst (run init_state
     [CreateRoom (Some ''Friday'') ''ROOM01'' ''Poker night'' ''t0'',
      JoinRoom ''sockA'' ''ROOM01'' (Some ''Ann'') None ''pA'' ''Shark #1'' ''t1'',
      JoinRoom ''sockB'' ''ROOM01'' (Some ''Bob'') None ''pB'' ''Shark #2'' ''t2'',
      Buyin ''ROOM01'' ''pA'' (Num 100) None ''x1'' ''t3''])"
  using run_append[of init_state
     "[CreateRoom (Some ''Friday'') ''ROOM01'' ''Poker night'' ''t0'',
      JoinRoom ''sockA'' ''ROOM01'' (Some ''Ann'') None ''pA'' ''Shark #1'' ''t1'',
      JoinRoom ''sockB'' ''ROOM01'' (Some ''Bob'') None ''pB'' ''Shark #2'' ''t2'']"
     "[Buyin ''ROOM01'' ''pA'' (Num 100) None ''x1'' ''t3'']"]
  by (simp only: demo_bought_def demo_joined_def append.simps)

section \<open>Profit before and after finalize\<close>

text \<open>
  C10. Take any state reached from the empty store by any list of commands, and in it
  a room that is not ended. Every player of the room has profit 0 and no final-chip
  value: the profit field is present, with value 0, before finalize. A join command on
  that room appends a player whose cumulative buy-in and profit are 0 and whose
  final-chip value is absent. A finalize command on that room sends one \<^verbatim>\<open>roomEnded\<close>
  event whose summary has one row per roster position, and for every position whose
  player id is not in the final-chips map the row carries the player's nickname,
  profit 0 and an absent final-chip value.
\<close>

theorem profit_zero_when_omitted:
  assumes "rooms (fst (run init_state cs)) roomId = Some r" and "status r \<noteq> Ended"
  shows "(\<forall>p \<in> set (players r). profit p = Num 0 \<and> finalChips p = None)
    \<and> (\<exists>r1 pl. rooms (fst (on_joinRoom (fst (run init_state cs)) sid roomId nick agent uuid
                        gen_nick now)) roomId = Some r1
          \<and> players r1 = players r @ [pl]
          \<and> pid pl = uuid \<and> buyin pl = Num 0 \<and> profit pl = Num 0 \<and> finalChips pl = None)
    \<and> (\<exists>r' rows. snd (on_finalizeRoom (fst (run init_state cs)) roomId fcs end_time)
                    = [ToRoom roomId (RoomEnded r' rows)]
          \<and> length rows = length (players r)
          \<and> (\<forall>i<length (players r). pid (players r ! i) \<notin> fc_playerId ` set fcs \<longrightarrow>
                s_nickname (rows ! i) = nickname (players r ! i)
              \<and> s_profit (rows ! i) = Num 0
              \<and> s_finalChips (rows ! i) = None))"
proof (intro conjI)
  let ?s = "fst (run init_state cs)"
  have "open_rooms_unsettled ?s"
    by (rule open_rooms_unsettled_run[OF open_rooms_unsettled_init])
  with assms show unsettled: "\<forall>p \<in> set (players r). profit p = Num 0 \<and> finalChips p = None"
    unfolding open_rooms_unsettled_def by blast
  show "\<exists>r1 pl. rooms (fst (on_joinRoom ?s sid roomId nick agent uuid gen_nick now)) roomId
            = Some r1
          \<and> players r1 = players r @ [pl]
          \<and> pid pl = uuid \<and> buyin pl = Num 0 \<and> profit pl = Num 0 \<and> finalChips pl = None"
    using assms by (simp add: on_joinRoom_rooms)
  from on_finalizeRoom_found[OF assms(1), of fcs end_time] obtain r' where r':
    "players r' = apply_finalChips (players r) fcs"
    "snd (on_finalizeRoom ?s roomId fcs end_time)
       = [ToRoom roomId (RoomEnded r' (map summary_of (players r')))]"
    by blast
  have rows: "s_nickname (map summary_of (players r') ! i) = nickname (players r ! i)
              \<and> s_profit (map summary_of (players r') ! i) = Num 0
              \<and> s_finalChips (map summary_of (players r') ! i) = None"
    if "i < length (players r)" "pid (players r ! i) \<notin> fc_playerId ` set fcs" for i
  proof -
    from that have same: "players r' ! i = players r ! i"
      by (simp add: r'(1) nth_apply_finalChips_unlisted)
    from that(1) have "players r ! i \<in> set (players r)" by simp
    with unsettled have "profit (players r ! i) = Num 0 \<and> finalChips (players r ! i) = None"
      by blast
    with that(1) same show ?thesis
      by (simp add: r'(1) length_apply_finalChips summary_of_def)
  qed
  show "\<exists>r' rows. snd (on_finalizeRoom ?s roomId fcs end_time)
                    = [ToRoom roomId (RoomEnded r' rows)]
          \<and> length rows = length (players r)
          \<and> (\<forall>i<length (players r). pid (players r ! i) \<notin> fc_playerId ` set fcs \<longrightarrow>
                s_nickname (rows ! i) = nickname (players r ! i)
              \<and> s_profit (rows ! i) = Num 0
              \<and> s_finalChips (rows ! i) = None)"
    apply (rule exI[of _ r'], rule exI[of _ "map summary_of (players r')"])
    using r'(2) rows by (simp add: r'(1) length_apply_finalChips)
qed

theorem profit_zero_when_omitted_witness:
  "rooms (fst (run init_state
     [CreateRoom (Some ''Friday'') ''ROOM01'' ''Poker night'' ''t0'',
      JoinRoom ''sockA'' ''ROOM01'' (Some ''Ann'') None ''pA'' ''Shark #1'' ''t1'',
      JoinRoom ''sockB'' ''ROOM01'' (Some ''Bob'') None ''pB'' ''Shark #2'' ''t2'',
      Buyin ''ROOM01'' ''pA'' (Num 100) None ''x1'' ''t3''])) ''ROOM01'' = Some demo_room_bought
   \<and> status demo_room_bought \<noteq> Ended
   \<and> pid (players demo_room_bought ! 1) = ''pB''
   \<and> nickname (players demo_room_bought ! 1) = ''Bob''
   \<and> (\<exists>r' rows. snd (on_finalizeRoom demo_bought ''ROOM01''
                        [\<lparr>fc_playerId = ''pA'', fc_amount = Num 150\<rparr>] ''t4'')
                    = [ToRoom ''ROOM01'' (RoomEnded r' rows)]
          \<and> length rows = 2
          \<and> s_nickname (rows ! 1) = ''Bob''
          \<and> s_profit (rows ! 1) = Num 0
          \<and> s_finalChips (rows ! 1) = None)"
proof -
  let ?cs = "[CreateRoom (Some ''Friday'') ''ROOM01'' ''Poker night'' ''t0'',
      JoinRoom ''sockA'' ''ROOM01'' (Some ''Ann'') None ''pA'' ''Shark #1'' ''t1'',
      JoinRoom ''sockB'' ''ROOM01'' (Some ''Bob'') None ''pB'' ''Shark #2'' ''t2'',
      Buyin ''ROOM01'' ''pA'' (Num 100) None ''x1'' ''t3'']"
  let ?fcs = "[\<lparr>fc_playerId = ''pA'', fc_amount = Num 150\<rparr>]"
  have a: "rooms (fst (run init_state ?cs)) ''ROOM01'' = Some demo_room_bought"
    using demo_bought_room by (simp only: demo_bought_reached)
  have b: "status demo_room_bought \<noteq> Ended"
    by (simp add: demo_room_bought_def demo_room_def)
  have c: "pid (players demo_room_bought ! 1) = ''pB''"
    "nickname (players demo_room_bought ! 1) = ''Bob''"
    "length (players demo_room_bought) = 2"
    by (simp_all add: demo_room_bought_def demo_room_def Bob_def)
  have d: "pid (players demo_room_bought ! 1) \<notin> fc_playerId ` set ?fcs"
    using c(1) by simp
  from profit_zero_when_omitted[OF a b, where fcs = ?fcs and end_time = "''t4''"]
  obtain r' rows where r':
    "snd (on_finalizeRoom (fst (run init_state ?cs)) ''ROOM01'' ?fcs ''t4'')
       = [ToRoom ''ROOM01'' (RoomEnded r' rows)]"
    "length rows = length (players demo_room_bought)"
    "\<forall>i<length (players demo_room_bought).
        pid (players demo_room_bought ! i) \<notin> fc_playerId ` set ?fcs \<longrightarrow>
          s_nickname (rows ! i) = nickname (players demo_room_bought ! i)
        \<and> s_profit (rows ! i) = Num 0
        \<and> s_finalChips (rows ! i) = None"
    by blast
  have e: "snd (on_finalizeRoom demo_bought ''ROOM01'' ?fcs ''t4'')
       = [ToRoom ''ROOM01'' (RoomEnded r' rows)]"
    using r'(1) by (simp only: demo_bought_reached)
  have f: "length rows = 2" using r'(2) c(3) by simp
  from r'(3)[rule_format, of 1] d c
  have g: "s_nickname (rows ! 1) = ''Bob''" "s_profit (rows ! 1) = Num 0"
    "s_finalChips (rows ! 1) = None"
    by simp_all
  show ?thesis
    by (intro conjI exI[of _ r'] exI[of _ rows]) (fact a b c(1,2) e f g)+
qed

section \<open>Status of a room along the commands\<close>

lemma step_status:
  assumes "rooms s roomId = Some r"
  shows "\<exists>r'. rooms (fst (step s c)) roomId = Some r'
      \<and> status r' = (if finalizes c roomId then Ended
                      else if creates_room c roomId then Waiting else status r)"
proof (cases c)
  case (CreateRoom name k default_name now)
  with assms show ?thesis
    by (simp add: createRoom_rooms createRoom_fresh)
next
  case (JoinRoom sid k nick agent uuid gen_nick now)
  with assms show ?thesis
    by (auto simp: on_joinRoom_rooms split: option.splits)
next
  case (Buyin k playerId amount nt uuid now)
  with assms show ?thesis
    by (auto simp: on_buyin_rooms split: option.splits)
next
  case (RecordResult k playerId type amount nt uuid now)
  with assms show ?thesis
    by (simp add: on_recordResult_rooms)
next
  case (FinalizeRoom k fcs now)
  with assms show ?thesis
    by (auto simp: on_finalizeRoom_rooms split: option.splits)
next
  case (LeaveRoom sid)
  with assms show ?thesis
    by (simp add: on_leaveRoom_rooms)
qed

text \<open>
  C8, as the code has it. A created room has status \<^verbatim>\<open>waiting\<close>. Every command leaves
  the status of a stored room as it was, with two exceptions: a finalize command for
  the room sets it to \<^verbatim>\<open>ended\<close>, and the creation of a room under the same id stores a
  new room with status \<^verbatim>\<open>waiting\<close>. So join, buy-in and record-result never move a
  room from \<^verbatim>\<open>waiting\<close> to another status, and none of join, buy-in, record-result and
  finalize moves a room out of \<^verbatim>\<open>ended\<close>. In no state reached from the empty store
  does a room have status \<^verbatim>\<open>playing\<close>.
\<close>

theorem status_transitions:
  "(\<forall>r. rooms s roomId = Some r \<longrightarrow>
      (\<exists>r'. rooms (fst (step s c)) roomId = Some r'
         \<and> status r' = (if finalizes c roomId then Ended
                         else if creates_room c roomId then Waiting else status r)))
   \<and> status (snd (createRoom s name roomId default_name now)) = Waiting
   \<and> (\<forall>r. rooms (fst (run init_state cs)) roomId = Some r \<longrightarrow> status r \<noteq> Playing)"
proof (intro conjI allI impI)
  fix r assume "rooms s roomId = Some r"
  then show "\<exists>r'. rooms (fst (step s c)) roomId = Some r'
         \<and> status r' = (if finalizes c roomId then Ended
                         else if creates_room c roomId then Waiting else status r)"
    by (rule step_status)
next
  show "status (snd (createRoom s name roomId default_name now)) = Waiting"
    by (simp add: createRoom_fresh)
next
  fix r assume "rooms (fst (run init_state cs)) roomId = Some r"
  moreover have "never_playing (fst (run init_state cs))"
    by (rule never_playing_run[OF never_playing_init])
  ultimately show "status r \<noteq> Playing"
    unfolding never_playing_def by blast
qed

theorem status_transitions_witness:
  "rooms demo_joined ''ROOM01'' = Some demo_room
   \<and> status demo_room = Waiting
   \<and> (\<exists>r'. rooms (fst (step demo_joined (Buyin ''ROOM01'' ''pA'' (Num 100) None ''x1'' ''t3'')))
               ''ROOM01'' = Some r'
          \<and> status r' = Waiting)
   \<and> (\<exists>r'. rooms (fst (step demo_joined (FinalizeRoom ''ROOM01'' [] ''t4''))) ''ROOM01''
               = Some r'
          \<and> status r' = Ended)
   \<and> rooms demo_ended ''ROOM01'' = Some demo_room_ended
   \<and> status demo_room_ended = Ended
   \<and> (\<exists>r'. rooms (fst (step demo_ended
                 (JoinRoom ''sockC'' ''ROOM01'' (Some ''Cy'') None ''pC'' ''Shark #3'' ''t5'')))
               ''ROOM01'' = Some r'
          \<and> status r' = Ended)"
proof -
  have w: "status demo_room = Waiting" by (simp add: demo_room_def)
  have e: "status demo_room_ended = Ended" by (simp add: demo_room_ended_def)
  from status_transitions[of demo_joined "''ROOM01''"
      "Buyin ''ROOM01'' ''pA'' (Num 100) None ''x1'' ''t3''"] demo_joined_room w
  have 1: "\<exists>r'. rooms (fst (step demo_joined (Buyin ''ROOM01'' ''pA'' (Num 100) None ''x1'' ''t3'')))
               ''ROOM01'' = Some r' \<and> status r' = Waiting"
    by (simp del: step.simps)
  from status_transitions[of demo_joined "''ROOM01''" "FinalizeRoom ''ROOM01'' [] ''t4''"]
    demo_joined_room
  have 2: "\<exists>r'. rooms (fst (step demo_joined (FinalizeRoom ''ROOM01'' [] ''t4''))) ''ROOM01''
               = Some r' \<and> status r' = Ended"
    by (simp del: step.simps)
  from status_transitions[of demo_ended "''ROOM01''"
      "JoinRoom ''sockC'' ''ROOM01'' (Some ''Cy'') None ''pC'' ''Shark #3'' ''t5''"]
    demo_ended_room e
  have 3: "\<exists>r'. rooms (fst (step demo_ended
                 (JoinRoom ''sockC'' ''ROOM01'' (Some ''Cy'') None ''pC'' ''Shark #3'' ''t5'')))
               ''ROOM01'' = Some r' \<and> status r' = Ended"
    by (simp del: step.simps)
  show ?thesis
    by (intro conjI) (fact demo_joined_room w 1 2 demo_ended_room e 3)+
qed

text \<open>
  The claim C8 asks for the first buy-in or record-result on a waiting room to move its
  status to \<^verbatim>\<open>playing\<close>. In the sample run the room is waiting after the two joins,
  and it is still waiting after a buy-in and after a record-result.
\<close>

theorem waiting_after_gameplay_counterexample:
  "rooms demo_joined ''ROOM01'' = Some demo_room
   \<and> status demo_room = Waiting
   \<and> rooms (fst (on_buyin demo_joined ''ROOM01'' ''pA'' (Num 100) None ''x1'' ''t3'')) ''ROOM01''
       = Some demo_room_bought
   \<and> status demo_room_bought = Waiting
   \<and> status demo_room_bought \<noteq> Playing
   \<and> rooms (fst (on_recordResult demo_joined ''ROOM01'' ''pA'' ''win'' (Num 30) None ''x1'' ''t3''))
        ''ROOM01'' = Some demo_room"
  by (simp add: on_buyin_rooms on_recordResult_rooms demo_joined_room demo_room_bought_def
      demo_room_def find_player_def Ann_def Bob_def demo_arith)

section \<open>Rooms that have ended\<close>

lemma roster_entry_buyin: "roster_entry (p\<lparr>buyin := b\<rparr>) = roster_entry p"
  by (simp add: roster_entry_def)

lemma roster_entry_set_final: "roster_entry (set_final fc p) = roster_entry p"
  by (simp add: roster_entry_def set_final_def)

lemma roster_entry_apply_finalChips:
  "map roster_entry (apply_finalChips ps fcs) = map roster_entry ps"
  by (rule map_apply_finalChips) (rule roster_entry_set_final)

lemma nth_buyin_apply_finalChips:
  assumes "i < length ps"
  shows "buyin (apply_finalChips ps fcs ! i) = buyin (ps ! i)"
proof -
  have "map buyin (apply_finalChips ps fcs) = map buyin ps"
    by (rule map_apply_finalChips) (rule set_final_buyin)
  then have "map buyin (apply_finalChips ps fcs) ! i = map buyin ps ! i" by simp
  with assms show ?thesis by (simp add: length_apply_finalChips)
qed

text \<open>
  C2, as the code has it. Let a room be stored with status \<^verbatim>\<open>ended\<close>, and let any
  command other than a room creation run (join, buy-in, record-result, finalize or
  leave, for any room). The room is still stored with status \<^verbatim>\<open>ended\<close>, its id, name
  and creation time are unchanged, and its roster has the same players in the same
  order with every field other than cumulative buy-in, final chips and profit unchanged.
  Join, record-result and leave leave the whole room document unchanged.

  What changes is this and no more. A buy-in command for a player found in the ended
  room replaces that player's cumulative buy-in by the result of the language's \<^verbatim>\<open>+\<close>
  on it and the amount; final chips and profit of every player, the cumulative buy-in
  of every other player, the final-chips snapshot and the end timestamp stay as they
  were. A finalize command for the ended room overwrites the snapshot and the end
  timestamp and, for a map with pairwise different ids, final chips and profit of the
  players it lists; the cumulative buy-in of every player and the whole record of every
  player it omits stay as they were.
\<close>

theorem ended_room_frame:
  assumes "rooms s roomId = Some r" and "status r = Ended" and "\<not> creates c"
  shows "\<exists>r'. rooms (fst (step s c)) roomId = Some r'
      \<and> status r' = Ended
      \<and> r'\<lparr>players := players r, room_finalChips := room_finalChips r, endedAt := endedAt r\<rparr> = r
      \<and> map roster_entry (players r') = map roster_entry (players r)
      \<and> (\<not> changes_money c \<longrightarrow> r' = r)
      \<and> (\<not> finalizes c roomId \<longrightarrow>
            room_finalChips r' = room_finalChips r \<and> endedAt r' = endedAt r
          \<and> map finalChips (players r') = map finalChips (players r)
          \<and> map profit (players r') = map profit (players r))
      \<and> (\<forall>i<length (players r). \<not> buys_in c roomId (pid (players r ! i)) \<longrightarrow>
            buyin (players r' ! i) = buyin (players r ! i))
      \<and> (\<forall>fcs now i. c = FinalizeRoom roomId fcs now \<and> i < length (players r)
            \<and> pid (players r ! i) \<notin> fc_playerId ` set fcs \<longrightarrow>
            players r' ! i = players r ! i)
      \<and> (\<forall>playerId amount nt uuid now p.
            c = Buyin roomId playerId amount nt uuid now
            \<and> find_player (players r) playerId = Some p \<longrightarrow>
            find_player (players r') playerId
              = Some (p\<lparr>buyin := js_add (num_or_zero (buyin p)) amount\<rparr>))
      \<and> (\<forall>fcs now fc p.
            c = FinalizeRoom roomId fcs now \<and> distinct (map fc_playerId fcs)
            \<and> fc \<in> set fcs \<and> find_player (players r) (fc_playerId fc) = Some p \<longrightarrow>
            find_player (players r') (fc_playerId fc)
              = Some (p\<lparr>finalChips := Some (fc_amount fc),
                       profit := js_sub (fc_amount fc) (buyin p)\<rparr>))"
proof (cases c)
  case (CreateRoom name k default_name now)
  with assms(3) show ?thesis by simp
next
  case (JoinRoom sid k nick agent uuid gen_nick now)
  with assms have "rooms (fst (step s c)) roomId = Some r"
    by (auto simp: on_joinRoom_rooms split: option.splits)
  with JoinRoom assms(2) show ?thesis by simp
next
  case (RecordResult k playerId type amount nt uuid now)
  with assms have "rooms (fst (step s c)) roomId = Some r"
    by (simp add: on_recordResult_rooms)
  with RecordResult assms(2) show ?thesis by simp
next
  case (LeaveRoom sid)
  with assms have "rooms (fst (step s c)) roomId = Some r"
    by (simp add: on_leaveRoom_rooms)
  with LeaveRoom assms(2) show ?thesis by simp
next
  case (Buyin k j amount nt uuid now)
  let ?upd = "\<lambda>p. p\<lparr>buyin := js_add (num_or_zero (buyin p)) amount\<rparr>"
  show ?thesis
  proof (cases "k = roomId \<and> (\<exists>p. find_player (players r) j = Some p)")
    case False
    with Buyin assms(1) have "rooms (fst (step s c)) roomId = Some r"
      by (auto simp: on_buyin_rooms split: option.splits)
    with Buyin assms(2) False show ?thesis by auto
  next
    case True
    then obtain p0 where k: "k = roomId" and p0: "find_player (players r) j = Some p0"
      by blast
    let ?r' = "r\<lparr>players := modify_found ?upd j (players r)\<rparr>"
    have stored: "rooms (fst (step s c)) roomId = Some ?r'"
      using Buyin assms(1) k p0 by (simp add: on_buyin_rooms)
    have others: "buyin (players ?r' ! i) = buyin (players r ! i)"
      if "i < length (players r)" "\<not> buys_in c roomId (pid (players r ! i))" for i
      using that Buyin k by (simp add: nth_modify_found_other)
    have found: "find_player (players ?r') j = Some (?upd p0)"
      using p0 by (simp add: find_modify_found_same)
    show ?thesis
      apply (rule exI[of _ ?r'])
      apply (intro conjI allI impI)
      using stored assms(2) others found p0 Buyin k
      by (simp_all add: map_modify_found roster_entry_buyin)
  qed
next
  case (FinalizeRoom k fcs now)
  show ?thesis
  proof (cases "k = roomId")
    case False
    with FinalizeRoom assms(1) have "rooms (fst (step s c)) roomId = Some r"
      by (auto simp: on_finalizeRoom_rooms split: option.splits)
    with FinalizeRoom assms(2) False show ?thesis by auto
  next
    case True
    let ?r' = "r\<lparr>players := apply_finalChips (players r) fcs, status := Ended,
                  room_finalChips := Some fcs, endedAt := Some now\<rparr>"
    have stored: "rooms (fst (step s c)) roomId = Some ?r'"
      using FinalizeRoom True assms(1) by (simp add: on_finalizeRoom_rooms)
    have same: "?r'\<lparr>players := players r, room_finalChips := room_finalChips r,
                   endedAt := endedAt r\<rparr> = r"
      using assms(2) by (cases r) simp
    have buyins: "buyin (players ?r' ! i) = buyin (players r ! i)"
      if "i < length (players r)" for i
      using that by (simp add: nth_buyin_apply_finalChips)
    have omitted: "players ?r' ! i = players r ! i"
      if "i < length (players r)" "pid (players r ! i) \<notin> fc_playerId ` set fcs" for i
      using that by (simp add: nth_apply_finalChips_unlisted)
    have listed: "find_player (players ?r') (fc_playerId fc)
          = Some (p\<lparr>finalChips := Some (fc_amount fc),
                   profit := js_sub (fc_amount fc) (buyin p)\<rparr>)"
      if "distinct (map fc_playerId fcs)" "fc \<in> set fcs"
        "find_player (players r) (fc_playerId fc) = Some p" for fc p
      using find_apply_finalChips_listed[OF that] by (simp add: set_final_def)
    show ?thesis
      apply (rule exI[of _ ?r'])
      apply (intro conjI allI impI)
      using stored same buyins omitted listed FinalizeRoom True
      by (simp_all add: roster_entry_apply_finalChips)
  qed
qed

theorem ended_room_frame_witness:
  "rooms demo_ended ''ROOM01'' = Some demo_room_ended
   \<and> status demo_room_ended = Ended
   \<and> \<not> creates (Buyin ''ROOM01'' ''pA'' (Num 50) None ''x2'' ''t5'')
   \<and> find_player (players demo_room_ended) ''pA''
       = Some (Ann\<lparr>buyin := Num 100, finalChips := Some (Num 150), profit := Num 50\<rparr>)
   \<and> (\<exists>r'. rooms (fst (step demo_ended (Buyin ''ROOM01'' ''pA'' (Num 50) None ''x2'' ''t5'')))
               ''ROOM01'' = Some r'
          \<and> status r' = Ended
          \<and> map roster_entry (players r') = map roster_entry (players demo_room_ended)
          \<and> map finalChips (players r') = [Some (Num 150), None]
          \<and> map profit (players r') = [Num 50, Num 0]
          \<and> buyin (players r' ! 1) = Num 0
          \<and> find_player (players r') ''pA''
              = Some (Ann\<lparr>buyin := Num 150, finalChips := Some (Num 150), profit := Num 50\<rparr>))"
proof -
  let ?c = "Buyin ''ROOM01'' ''pA'' (Num 50) None ''x2'' ''t5''"
  have e: "status demo_room_ended = Ended" by (simp add: demo_room_ended_def)
  have n: "\<not> creates ?c" by simp
  have f: "find_player (players demo_room_ended) ''pA''
       = Some (Ann\<lparr>buyin := Num 100, finalChips := Some (Num 150), profit := Num 50\<rparr>)"
    by (simp add: demo_room_ended_def find_player_def Ann_def)
  have bob: "(1 :: nat) < length (players demo_room_ended)"
    "\<not> buys_in ?c ''ROOM01'' (pid (players demo_room_ended ! 1))"
    "buyin (players demo_room_ended ! 1) = Num 0"
    by (simp_all add: demo_room_ended_def demo_room_def Bob_def)
  have old: "map finalChips (players demo_room_ended) = [Some (Num 150), None]"
    "map profit (players demo_room_ended) = [Num 50, Num 0]"
    by (simp_all add: demo_room_ended_def demo_room_def Ann_def Bob_def)
  have nf: "\<not> finalizes ?c ''ROOM01''" by simp
  from ended_room_frame[OF demo_ended_room e n] obtain r' where r':
    "rooms (fst (step demo_ended ?c)) ''ROOM01'' = Some r'"
    "status r' = Ended"
    "map roster_entry (players r') = map roster_entry (players demo_room_ended)"
    "\<not> finalizes ?c ''ROOM01'' \<longrightarrow>
        room_finalChips r' = room_finalChips demo_room_ended
      \<and> endedAt r' = endedAt demo_room_ended
      \<and> map finalChips (players r') = map finalChips (players demo_room_ended)
      \<and> map profit (players r') = map profit (players demo_room_ended)"
    "\<forall>i<length (players demo_room_ended).
        \<not> buys_in ?c ''ROOM01'' (pid (players demo_room_ended ! i)) \<longrightarrow>
        buyin (players r' ! i) = buyin (players demo_room_ended ! i)"
    "\<forall>playerId amount nt uuid now p.
        ?c = Buyin ''ROOM01'' playerId amount nt uuid now
        \<and> find_player (players demo_room_ended) playerId = Some p \<longrightarrow>
        find_player (players r') playerId
          = Some (p\<lparr>buyin := js_add (num_or_zero (buyin p)) amount\<rparr>)"
    by (elim exE conjE) (rule that; assumption)
  from r'(4) nf old have money: "map finalChips (players r') = [Some (Num 150), None]"
    "map profit (players r') = [Num 50, Num 0]"
    by simp_all
  from r'(5)[rule_format, OF bob(1,2)] bob(3) have other: "buyin (players r' ! 1) = Num 0"
    by simp
  from r'(6)[rule_format, of "''pA''" "Num 50" None "''x2''" "''t5''"
      "Ann\<lparr>buyin := Num 100, finalChips := Some (Num 150), profit := Num 50\<rparr>"] f
  have g: "find_player (players r') ''pA''
      = Some (Ann\<lparr>buyin := Num 150, finalChips := Some (Num 150), profit := Num 50\<rparr>)"
    by (simp add: demo_arith)
  show ?thesis
    by (intro conjI exI[of _ r']) (fact demo_ended_room e n f r'(1,2,3) money other g)+
qed

text \<open>
  The claim C2 asks for cumulative buy-in, final chips and profit of the players of an
  ended room to be immutable. In the sample run the room is ended with cumulative
  buy-ins 100 and 0, final chips 150 for Ann and profits 50 and 0. A buy-in of 50 for
  Ann afterwards is stored, and the buy-ins are 150 and 0. A finalize with 70 chips for
  Ann afterwards is stored, and her final chips are 70 and her profit is \<open>-30\<close>.
\<close>

theorem ended_room_money_counterexample:
  "rooms demo_ended ''ROOM01'' = Some demo_room_ended
   \<and> status demo_room_ended = Ended
   \<and> map buyin (players demo_room_ended) = [Num 100, Num 0]
   \<and> map finalChips (players demo_room_ended) = [Some (Num 150), None]
   \<and> map profit (players demo_room_ended) = [Num 50, Num 0]
   \<and> rooms (fst (on_buyin demo_ended ''ROOM01'' ''pA'' (Num 50) None ''x2'' ''t5'')) ''ROOM01''
       = Some (demo_room_ended\<lparr>players :=
            [Ann\<lparr>buyin := Num 150, finalChips := Some (Num 150), profit := Num 50\<rparr>, Bob]\<rparr>)
   \<and> snd (on_buyin demo_ended ''ROOM01'' ''pA'' (Num 50) None ''x2'' ''t5'')
       = [ToRoom ''ROOM01'' (BuyinEvent ''pA''
            (Ann\<lparr>buyin := Num 150, finalChips := Some (Num 150), profit := Num 50\<rparr>)
            (Num 50) None)]
   \<and> rooms (fst (on_finalizeRoom demo_ended ''ROOM01''
               [\<lparr>fc_playerId = ''pA'', fc_amount = Num 70\<rparr>] ''t9'')) ''ROOM01''
       = Some demo_room_refinalized
   \<and> map buyin (players demo_room_refinalized) = [Num 100, Num 0]
   \<and> map finalChips (players demo_room_refinalized) = [Some (Num 70), None]
   \<and> map profit (players demo_room_refinalized) = [Num (- 30), Num 0]"
  by (simp add: on_buyin_def on_finalizeRoom_rooms getRoom_def demo_ended_room rooms_saveRoom
      rooms_saveTransaction Let_def demo_room_refinalized_def demo_room_ended_def
      demo_room_def find_player_def Ann_def Bob_def truthy_def set_final_def demo_arith)

end
